theory Spec2Isabelle
  imports Main
begin

section \<open>Operation nodes\<close>

text \<open>
  The builders of \<^verbatim>\<open>join-builder.ts\<close> and \<^verbatim>\<open>sub-query-builder.ts\<close> wrap immutable
  operation nodes. Nodes are frozen values that are never written after construction,
  so they are modelled as values of a datatype. The kinds of node that the builders
  construct themselves are listed by name; every other kind (comparisons, existence
  predicates, references, tables, ...) is built by a parser and is kept as a generic node
  with its kind and children.
\<close>

datatype node =
    RawNode string
  | AndNode node node
  | OrNode node node
  | OtherNode string "node list"

text \<open>
  Modelled from the spec: the type \<^verbatim>\<open>JoinNode\<close> of \<^verbatim>\<open>operation-node/join-node.ts\<close> is not
  among the source files. The spec gives it a join kind, a table reference and an optional
  "on" predicate clause.
\<close>

record JoinNode =
  joinType :: string
  table :: node
  on_clause :: "node option"

text \<open>
  Modelled from the spec: \<^verbatim>\<open>JoinNode.cloneWithOn\<close> is not among the source files. The spec:
  "clone with on" conjuncts the new fragment with any existing clause, as a whole; it is
  pure and returns a structurally new node.
\<close>

definition cloneWithOn :: "JoinNode \<Rightarrow> node \<Rightarrow> JoinNode" where
  "cloneWithOn joinNode operation =
     joinNode\<lparr>on_clause :=
       Some (case on_clause joinNode of
               None \<Rightarrow> operation
             | Some c \<Rightarrow> AndNode c operation)\<rparr>"

text \<open>
  Modelled from the spec: \<^verbatim>\<open>JoinNode.cloneWithOrOn\<close> is not among the source files. The
  spec: "clone with or-on" disjuncts the new fragment with any existing clause, as a whole.
\<close>

definition cloneWithOrOn :: "JoinNode \<Rightarrow> node \<Rightarrow> JoinNode" where
  "cloneWithOrOn joinNode operation =
     joinNode\<lparr>on_clause :=
       Some (case on_clause joinNode of
               None \<Rightarrow> operation
             | Some c \<Rightarrow> OrNode c operation)\<rparr>"

text \<open>
  Modelled from the spec: \<^verbatim>\<open>RawNode.createWithSql\<close> is not among the source files. The
  spec calls its result for \<^verbatim>\<open>'true'\<close> a literal \<^verbatim>\<open>true\<close> predicate: a raw fragment
  holding the given SQL text.
\<close>

definition createWithSql :: "string \<Rightarrow> node" where
  "createWithSql sql = RawNode sql"

text \<open>
  Modelled from the spec: \<^verbatim>\<open>SelectQueryNode.create\<close> is not among the source files. The
  spec: a select-query node whose \<^verbatim>\<open>from\<close> clause is the parsed table expression(s).
\<close>

datatype query_node = SelectQueryNode (from_items: "node list")

definition SelectQueryNode_create :: "node list \<Rightarrow> query_node" where
  "SelectQueryNode_create fromItems = SelectQueryNode fromItems"

section \<open>Errors\<close>

text \<open>
  The error taxonomy of the spec, and \<open>TypeError\<close>, which JavaScript throws when a private
  member (\<^verbatim>\<open>this.#props\<close>) is read from an object whose class did not declare it.
\<close>

datatype error =
    InvalidOperator
  | InvalidOperand
  | InvalidArgument
  | InvalidTableExpression
  | MisuseError string
  | TypeError

section \<open>Objects, the heap and the state\<close>

type_synonym ref = nat

text \<open>A dialect adapter is an external object; this core only knows its identity.\<close>

datatype DialectAdapter = DialectAdapter nat

datatype QueryId = QueryId nat

datatype plugin = WithSchemaPlugin string | OtherPlugin string

record JoinBuilderProps =
  joinNode :: JoinNode

record SubQueryBuilderProps =
  executor :: ref
  adapter :: DialectAdapter

text \<open>
  The properties of the \<^verbatim>\<open>QueryBuilder\<close> that \<^verbatim>\<open>subQuery\<close> constructs: the object literal
  of the source has the fields \<^verbatim>\<open>queryId\<close>, \<^verbatim>\<open>executor\<close>, \<^verbatim>\<open>adapter\<close> and \<^verbatim>\<open>queryNode\<close>.
\<close>

record QueryBuilderProps = SubQueryBuilderProps +
  queryId :: QueryId
  queryNode :: query_node

datatype obj =
    JoinBuilder JoinBuilderProps
  | SubQueryBuilder SubQueryBuilderProps
  | QueryBuilder QueryBuilderProps
  | NoopQueryExecutor "plugin list"

text \<open>
  The calls a builder method makes to its collaborators, in the order in which JavaScript
  evaluates them.
\<close>

datatype event =
    Call_parseOn
  | Call_parseReferentialComparison
  | Call_parseExists
  | Call_parseNotExists
  | Call_cloneWithOn
  | Call_cloneWithOrOn
  | Call_createWithSql string
  | Call_createQueryId
  | Call_createParseContext DialectAdapter
  | Call_parseTableExpressionOrList
  | Call_SelectQueryNode_create
  | Call_withPluginAtFront ref plugin

text \<open>
  The state of the process: the objects allocated so far (an object's reference is its
  index; \<^verbatim>\<open>new\<close> appends), the number of query identifiers issued so far, and the
  collaborator calls made so far.
\<close>

record state =
  heap :: "obj list"
  issued :: nat
  calls :: "event list"

definition lookup :: "state \<Rightarrow> ref \<Rightarrow> obj option" where
  "lookup s r = (if r < length (heap s) then Some (heap s ! r) else None)"

section \<open>Computations that may throw\<close>

type_synonym 'v comp = "state \<Rightarrow> (error + 'v) \<times> state"

definition returnM :: "'v \<Rightarrow> 'v comp" where
  "returnM v s = (Inr v, s)"

definition bindM :: "'v comp \<Rightarrow> ('v \<Rightarrow> 'w comp) \<Rightarrow> 'w comp" where
  "bindM m f s =
     (case m s of
        (Inl e, s') \<Rightarrow> (Inl e, s')
      | (Inr v, s') \<Rightarrow> f v s')"

text \<open>A call to a pure collaborator: its result (or its exception) and the call recorded.\<close>

definition external :: "event \<Rightarrow> error + 'v \<Rightarrow> 'v comp" where
  "external ev r s = (r, s\<lparr>calls := calls s @ [ev]\<rparr>)"

text \<open>\<^verbatim>\<open>new C(props)\<close>: the constructor freezes the properties and stores them in a new object.\<close>

definition new :: "obj \<Rightarrow> ref comp" where
  "new ob s = (Inr (length (heap s)), s\<lparr>heap := heap s @ [ob]\<rparr>)"

section \<open>Collaborators taken as parameters\<close>

text \<open>
  The parsers and the parse-context factory are not among the source files, and the spec
  gives only their signatures: pure functions from caller-supplied values (of type \<open>'a\<close>)
  to a node fragment or a failure. They are parameters of the model.
\<close>

record ('a, 'c) collaborators =
  parseOn :: "'a list \<Rightarrow> error + node"
  parseReferentialComparison :: "'a \<Rightarrow> 'a \<Rightarrow> 'a \<Rightarrow> error + node"
  parseExists :: "'a \<Rightarrow> error + node"
  parseNotExists :: "'a \<Rightarrow> error + node"
  createParseContext :: "DialectAdapter \<Rightarrow> 'c"
  parseTableExpressionOrList :: "'c \<Rightarrow> 'a \<Rightarrow> error + node list"

section \<open>JoinBuilder\<close>

text \<open>\<^verbatim>\<open>this.#props\<close> inside a method of \<^verbatim>\<open>JoinBuilder\<close>.\<close>

definition JoinBuilder_props :: "ref \<Rightarrow> JoinBuilderProps comp" where
  "JoinBuilder_props this s =
     (case lookup s this of
        Some (JoinBuilder props) \<Rightarrow> (Inr props, s)
      | _ \<Rightarrow> (Inl TypeError, s))"

definition on :: "('a, 'c) collaborators \<Rightarrow> ref \<Rightarrow> 'a list \<Rightarrow> ref comp" where
  "on P this args =
     bindM (JoinBuilder_props this) (\<lambda>props.
     bindM (external Call_parseOn (parseOn P args)) (\<lambda>operation.
     bindM (external Call_cloneWithOn (Inr (cloneWithOn (joinNode props) operation))) (\<lambda>jn.
     new (JoinBuilder (props\<lparr>joinNode := jn\<rparr>)))))"

definition orOn :: "('a, 'c) collaborators \<Rightarrow> ref \<Rightarrow> 'a list \<Rightarrow> ref comp" where
  "orOn P this args =
     bindM (JoinBuilder_props this) (\<lambda>props.
     bindM (external Call_parseOn (parseOn P args)) (\<lambda>operation.
     bindM (external Call_cloneWithOrOn (Inr (cloneWithOrOn (joinNode props) operation))) (\<lambda>jn.
     new (JoinBuilder (props\<lparr>joinNode := jn\<rparr>)))))"

definition onRef :: "('a, 'c) collaborators \<Rightarrow> ref \<Rightarrow> 'a \<Rightarrow> 'a \<Rightarrow> 'a \<Rightarrow> ref comp" where
  "onRef P this lhs op rhs =
     bindM (JoinBuilder_props this) (\<lambda>props.
     bindM (external Call_parseReferentialComparison
              (parseReferentialComparison P lhs op rhs)) (\<lambda>operation.
     bindM (external Call_cloneWithOn (Inr (cloneWithOn (joinNode props) operation))) (\<lambda>jn.
     new (JoinBuilder (props\<lparr>joinNode := jn\<rparr>)))))"

definition orOnRef :: "('a, 'c) collaborators \<Rightarrow> ref \<Rightarrow> 'a \<Rightarrow> 'a \<Rightarrow> 'a \<Rightarrow> ref comp" where
  "orOnRef P this lhs op rhs =
     bindM (JoinBuilder_props this) (\<lambda>props.
     bindM (external Call_parseReferentialComparison
              (parseReferentialComparison P lhs op rhs)) (\<lambda>operation.
     bindM (external Call_cloneWithOrOn (Inr (cloneWithOrOn (joinNode props) operation))) (\<lambda>jn.
     new (JoinBuilder (props\<lparr>joinNode := jn\<rparr>)))))"

definition onExists :: "('a, 'c) collaborators \<Rightarrow> ref \<Rightarrow> 'a \<Rightarrow> ref comp" where
  "onExists P this arg =
     bindM (JoinBuilder_props this) (\<lambda>props.
     bindM (external Call_parseExists (parseExists P arg)) (\<lambda>operation.
     bindM (external Call_cloneWithOn (Inr (cloneWithOn (joinNode props) operation))) (\<lambda>jn.
     new (JoinBuilder (props\<lparr>joinNode := jn\<rparr>)))))"

definition onNotExists :: "('a, 'c) collaborators \<Rightarrow> ref \<Rightarrow> 'a \<Rightarrow> ref comp" where
  "onNotExists P this arg =
     bindM (JoinBuilder_props this) (\<lambda>props.
     bindM (external Call_parseNotExists (parseNotExists P arg)) (\<lambda>operation.
     bindM (external Call_cloneWithOn (Inr (cloneWithOn (joinNode props) operation))) (\<lambda>jn.
     new (JoinBuilder (props\<lparr>joinNode := jn\<rparr>)))))"

definition orOnExists :: "('a, 'c) collaborators \<Rightarrow> ref \<Rightarrow> 'a \<Rightarrow> ref comp" where
  "orOnExists P this arg =
     bindM (JoinBuilder_props this) (\<lambda>props.
     bindM (external Call_parseExists (parseExists P arg)) (\<lambda>operation.
     bindM (external Call_cloneWithOrOn (Inr (cloneWithOrOn (joinNode props) operation))) (\<lambda>jn.
     new (JoinBuilder (props\<lparr>joinNode := jn\<rparr>)))))"

definition orOnNotExists :: "('a, 'c) collaborators \<Rightarrow> ref \<Rightarrow> 'a \<Rightarrow> ref comp" where
  "orOnNotExists P this arg =
     bindM (JoinBuilder_props this) (\<lambda>props.
     bindM (external Call_parseNotExists (parseNotExists P arg)) (\<lambda>operation.
     bindM (external Call_cloneWithOrOn (Inr (cloneWithOrOn (joinNode props) operation))) (\<lambda>jn.
     new (JoinBuilder (props\<lparr>joinNode := jn\<rparr>)))))"

definition onTrue :: "ref \<Rightarrow> ref comp" where
  "onTrue this =
     bindM (JoinBuilder_props this) (\<lambda>props.
     bindM (external (Call_createWithSql ''true'') (Inr (createWithSql ''true''))) (\<lambda>operation.
     bindM (external Call_cloneWithOn (Inr (cloneWithOn (joinNode props) operation))) (\<lambda>jn.
     new (JoinBuilder (props\<lparr>joinNode := jn\<rparr>)))))"

text \<open>\<^verbatim>\<open>$call(func)\<close> returns \<^verbatim>\<open>func(this)\<close>.\<close>

definition call :: "(ref \<Rightarrow> 'v comp) \<Rightarrow> ref \<Rightarrow> 'v comp" where
  "call func this = func this"

definition toOperationNode :: "ref \<Rightarrow> JoinNode comp" where
  "toOperationNode this =
     bindM (JoinBuilder_props this) (\<lambda>props. returnM (joinNode props))"

section \<open>SubQueryBuilder\<close>

text \<open>\<^verbatim>\<open>this.#props\<close> inside a method of \<^verbatim>\<open>SubQueryBuilder\<close>.\<close>

definition SubQueryBuilder_props :: "ref \<Rightarrow> SubQueryBuilderProps comp" where
  "SubQueryBuilder_props this s =
     (case lookup s this of
        Some (SubQueryBuilder props) \<Rightarrow> (Inr props, s)
      | _ \<Rightarrow> (Inl TypeError, s))"

text \<open>
  Modelled from the spec: \<^verbatim>\<open>createQueryId\<close> of \<^verbatim>\<open>util/query-id.ts\<close> is not among the source
  files. The spec: it returns a unique identifier, globally unique per call, never reused.
  The model issues the identifiers \<open>0, 1, 2, ...\<close> in turn.
\<close>

definition createQueryId :: "QueryId comp" where
  "createQueryId s =
     (Inr (QueryId (issued s)),
      s\<lparr>issued := Suc (issued s), calls := calls s @ [Call_createQueryId]\<rparr>)"

text \<open>
  Modelled from the spec: \<^verbatim>\<open>NoopQueryExecutor.withPluginAtFront\<close> is not among the source
  files. The spec: the executor's transformation chain is immutable; the call returns an
  executor with the transformation installed at the front of the chain.
\<close>

definition withPluginAtFront :: "ref \<Rightarrow> plugin \<Rightarrow> ref comp" where
  "withPluginAtFront ex p s =
     (case lookup s ex of
        Some (NoopQueryExecutor plugins) \<Rightarrow>
          bindM (external (Call_withPluginAtFront ex p) (Inr (p # plugins)))
            (\<lambda>plugins'. new (NoopQueryExecutor plugins')) s
      | _ \<Rightarrow> (Inl TypeError, s))"

text \<open>The getter \<^verbatim>\<open>#parseContext\<close>.\<close>

definition parseContext :: "('a, 'c) collaborators \<Rightarrow> ref \<Rightarrow> 'c comp" where
  "parseContext P this =
     bindM (SubQueryBuilder_props this) (\<lambda>props.
     external (Call_createParseContext (adapter props))
       (Inr (createParseContext P (adapter props))))"

text \<open>
  \<^verbatim>\<open>subQuery(table)\<close>. The properties of the object literal are evaluated in the order in
  which they are written: \<^verbatim>\<open>createQueryId()\<close> first, the parser last.
\<close>

definition subQuery :: "('a, 'c) collaborators \<Rightarrow> ref \<Rightarrow> 'a \<Rightarrow> ref comp" where
  "subQuery P this tbl =
     bindM createQueryId (\<lambda>qid.
     bindM (SubQueryBuilder_props this) (\<lambda>props.
     bindM (parseContext P this) (\<lambda>ctx.
     bindM (external Call_parseTableExpressionOrList
              (parseTableExpressionOrList P ctx tbl)) (\<lambda>items.
     bindM (external Call_SelectQueryNode_create (Inr (SelectQueryNode_create items))) (\<lambda>qn.
     new (QueryBuilder
            \<lparr>executor = executor props, adapter = adapter props,
             queryId = qid, queryNode = qn\<rparr>))))))"

definition withSchema :: "ref \<Rightarrow> string \<Rightarrow> ref comp" where
  "withSchema this schema =
     bindM (SubQueryBuilder_props this) (\<lambda>props.
     bindM (withPluginAtFront (executor props) (WithSchemaPlugin schema)) (\<lambda>ex.
     new (SubQueryBuilder (props\<lparr>executor := ex\<rparr>))))"

section \<open>Awaiting a builder\<close>

datatype clazz = JoinBuilder_class | SubQueryBuilder_class

text \<open>
  Modelled from the spec: \<^verbatim>\<open>preventAwait\<close> of \<^verbatim>\<open>util/prevent-await.ts\<close> is not among the
  source files. The spec: awaiting a guarded builder fails fast with a diagnostic. The
  call installs on the class a \<^verbatim>\<open>then\<close> member that fails with the message.
\<close>

definition preventAwait ::
  "clazz \<Rightarrow> string \<Rightarrow> (clazz \<Rightarrow> string option) \<Rightarrow> (clazz \<Rightarrow> string option)" where
  "preventAwait c message thens = thens(c \<mapsto> message)"

text \<open>
  The \<^verbatim>\<open>then\<close> members once both modules are loaded: \<^verbatim>\<open>join-builder.ts\<close> ends with a call of
  \<^verbatim>\<open>preventAwait\<close>; \<^verbatim>\<open>sub-query-builder.ts\<close> neither imports nor calls it.
\<close>

definition JoinBuilder_await_message :: string where
  "JoinBuilder_await_message =
     ''don't await JoinBuilder instances. They are never executed directly and are always just a part of a query.''"

definition then_members :: "clazz \<Rightarrow> string option" where
  "then_members = preventAwait JoinBuilder_class JoinBuilder_await_message Map.empty"

text \<open>
  \<^verbatim>\<open>await v\<close> for an instance \<open>v\<close> of the class \<open>c\<close>: a \<^verbatim>\<open>then\<close> member is called, and its
  exception rejects the await; a value without one is the result of the await.
\<close>

definition await :: "clazz \<Rightarrow> ref \<Rightarrow> error + ref" where
  "await c v =
     (case then_members c of
        Some message \<Rightarrow> Inl (MisuseError message)
      | None \<Rightarrow> Inr v)"

section \<open>Calls and chains\<close>

datatype 'a join_method =
    On "'a list"
  | OrOn "'a list"
  | OnRef 'a 'a 'a
  | OrOnRef 'a 'a 'a
  | OnExists 'a
  | OnNotExists 'a
  | OrOnExists 'a
  | OrOnNotExists 'a
  | OnTrue

datatype 'a sub_query_method =
    SubQuery 'a
  | WithSchema string

datatype 'a builder_method =
    JoinBuilder_method "'a join_method"
  | SubQueryBuilder_method "'a sub_query_method"

text \<open>\<open>invoke_join P b m\<close> is the call \<^verbatim>\<open>b.m(...)\<close> of a \<^verbatim>\<open>JoinBuilder\<close> method.\<close>

fun invoke_join :: "('a, 'c) collaborators \<Rightarrow> ref \<Rightarrow> 'a join_method \<Rightarrow> ref comp" where
  "invoke_join P b (On args) = on P b args"
| "invoke_join P b (OrOn args) = orOn P b args"
| "invoke_join P b (OnRef lhs op rhs) = onRef P b lhs op rhs"
| "invoke_join P b (OrOnRef lhs op rhs) = orOnRef P b lhs op rhs"
| "invoke_join P b (OnExists arg) = onExists P b arg"
| "invoke_join P b (OnNotExists arg) = onNotExists P b arg"
| "invoke_join P b (OrOnExists arg) = orOnExists P b arg"
| "invoke_join P b (OrOnNotExists arg) = orOnNotExists P b arg"
| "invoke_join P b OnTrue = onTrue b"

text \<open>\<open>invoke_sub P b m\<close> is the call \<^verbatim>\<open>b.m(...)\<close> of a \<^verbatim>\<open>SubQueryBuilder\<close> method.\<close>

fun invoke_sub :: "('a, 'c) collaborators \<Rightarrow> ref \<Rightarrow> 'a sub_query_method \<Rightarrow> ref comp" where
  "invoke_sub P b (SubQuery tbl) = subQuery P b tbl"
| "invoke_sub P b (WithSchema schema) = withSchema b schema"

fun invoke :: "('a, 'c) collaborators \<Rightarrow> ref \<Rightarrow> 'a builder_method \<Rightarrow> ref comp" where
  "invoke P b (JoinBuilder_method m) = invoke_join P b m"
| "invoke P b (SubQueryBuilder_method m) = invoke_sub P b m"

text \<open>\<open>chain P b ms\<close> is the fluent chain \<^verbatim>\<open>b.m1(...).m2(...)...\<close> on a \<^verbatim>\<open>JoinBuilder\<close>.\<close>

fun chain :: "('a, 'c) collaborators \<Rightarrow> ref \<Rightarrow> 'a join_method list \<Rightarrow> ref comp" where
  "chain P b [] = returnM b"
| "chain P b (m # ms) = bindM (invoke_join P b m) (\<lambda>b'. chain P b' ms)"

text \<open>\<open>schemas b ss\<close> is the chain \<^verbatim>\<open>b.withSchema(s1).withSchema(s2)...\<close>.\<close>

fun schemas :: "ref \<Rightarrow> string list \<Rightarrow> ref comp" where
  "schemas b [] = returnM b"
| "schemas b (x # xs) = bindM (withSchema b x) (\<lambda>b'. schemas b' xs)"

text \<open>
  \<open>run P cs s\<close> is the state after the process has made the calls \<open>cs\<close>, each on a
  builder of its own, whether they return or throw.
\<close>

fun run :: "('a, 'c) collaborators \<Rightarrow> (ref \<times> 'a builder_method) list \<Rightarrow> state \<Rightarrow> state" where
  "run P [] s = s"
| "run P ((b, m) # cs) s = run P cs (snd (invoke P b m s))"

section \<open>What each JoinBuilder method does, read off its body\<close>

datatype connective = Conjunction | Disjunction

text \<open>The fragment a method passes to the join node: the result of its parser.\<close>

fun fragment :: "('a, 'c) collaborators \<Rightarrow> 'a join_method \<Rightarrow> error + node" where
  "fragment P (On args) = parseOn P args"
| "fragment P (OrOn args) = parseOn P args"
| "fragment P (OnRef lhs op rhs) = parseReferentialComparison P lhs op rhs"
| "fragment P (OrOnRef lhs op rhs) = parseReferentialComparison P lhs op rhs"
| "fragment P (OnExists arg) = parseExists P arg"
| "fragment P (OnNotExists arg) = parseNotExists P arg"
| "fragment P (OrOnExists arg) = parseExists P arg"
| "fragment P (OrOnNotExists arg) = parseNotExists P arg"
| "fragment P OnTrue = Inr (createWithSql ''true'')"

fun parse_call :: "'a join_method \<Rightarrow> event" where
  "parse_call (On args) = Call_parseOn"
| "parse_call (OrOn args) = Call_parseOn"
| "parse_call (OnRef lhs op rhs) = Call_parseReferentialComparison"
| "parse_call (OrOnRef lhs op rhs) = Call_parseReferentialComparison"
| "parse_call (OnExists arg) = Call_parseExists"
| "parse_call (OnNotExists arg) = Call_parseNotExists"
| "parse_call (OrOnExists arg) = Call_parseExists"
| "parse_call (OrOnNotExists arg) = Call_parseNotExists"
| "parse_call OnTrue = Call_createWithSql ''true''"

text \<open>Whether a method extends the join node with \<^verbatim>\<open>cloneWithOn\<close> or \<^verbatim>\<open>cloneWithOrOn\<close>.\<close>

fun connective_of :: "'a join_method \<Rightarrow> connective" where
  "connective_of (On args) = Conjunction"
| "connective_of (OrOn args) = Disjunction"
| "connective_of (OnRef lhs op rhs) = Conjunction"
| "connective_of (OrOnRef lhs op rhs) = Disjunction"
| "connective_of (OnExists arg) = Conjunction"
| "connective_of (OnNotExists arg) = Conjunction"
| "connective_of (OrOnExists arg) = Disjunction"
| "connective_of (OrOnNotExists arg) = Disjunction"
| "connective_of OnTrue = Conjunction"

fun clone :: "connective \<Rightarrow> JoinNode \<Rightarrow> node \<Rightarrow> JoinNode" where
  "clone Conjunction = cloneWithOn"
| "clone Disjunction = cloneWithOrOn"

fun clone_call :: "connective \<Rightarrow> event" where
  "clone_call Conjunction = Call_cloneWithOn"
| "clone_call Disjunction = Call_cloneWithOrOn"

text \<open>
  The step every method of \<^verbatim>\<open>JoinBuilder\<close> is written to make, with the parser's result \<open>r\<close>
  and the connective \<open>k\<close>: the parser's exception is thrown after the parser's call
  alone; otherwise the join node is extended and wrapped in a new builder.
\<close>

definition extended ::
  "state \<Rightarrow> JoinBuilderProps \<Rightarrow> event \<Rightarrow> connective \<Rightarrow> error + node \<Rightarrow> (error + ref) \<times> state" where
  "extended s props parser k r =
     (case r of
        Inl e \<Rightarrow> (Inl e, s\<lparr>calls := calls s @ [parser]\<rparr>)
      | Inr f \<Rightarrow>
          (Inr (length (heap s)),
           s\<lparr>heap := heap s @ [JoinBuilder (props\<lparr>joinNode := clone k (joinNode props) f\<rparr>)],
             calls := calls s @ [parser, clone_call k]\<rparr>))"

section \<open>The on clause as the spec describes it\<close>

text \<open>
  The spec's design rule: a new fragment is joined to the accumulated clause as a whole,
  by AND for the \<^verbatim>\<open>on\<close> family and by OR for the \<^verbatim>\<open>orOn\<close> family, left to right:
  \<^verbatim>\<open>(((c1) AND c2) OR c3) AND c4\<close>.
\<close>

fun spec_compose :: "node option \<Rightarrow> connective \<times> node \<Rightarrow> node option" where
  "spec_compose None (k, f) = Some f"
| "spec_compose (Some c) (Conjunction, f) = Some (AndNode c f)"
| "spec_compose (Some c) (Disjunction, f) = Some (OrNode c f)"

definition spec_on_clause :: "node option \<Rightarrow> (connective \<times> node) list \<Rightarrow> node option" where
  "spec_on_clause c steps = foldl spec_compose c steps"

section \<open>What a caller can observe of an object\<close>

definition plugins_of :: "state \<Rightarrow> ref \<Rightarrow> plugin list option" where
  "plugins_of s ex =
     (case lookup s ex of
        Some (NoopQueryExecutor plugins) \<Rightarrow> Some plugins
      | _ \<Rightarrow> None)"

datatype observation =
    Seen_JoinBuilder JoinNode
  | Seen_SubQueryBuilder "plugin list option" DialectAdapter
  | Seen_QueryBuilder QueryId "plugin list option" DialectAdapter query_node
  | Seen_NoopQueryExecutor "plugin list"

text \<open>
  The contents of an object with the references in it followed: two objects with the same
  observation differ by their addresses only.
\<close>

definition observe :: "state \<Rightarrow> ref \<Rightarrow> observation option" where
  "observe s r =
     (case lookup s r of
        None \<Rightarrow> None
      | Some (JoinBuilder props) \<Rightarrow> Some (Seen_JoinBuilder (joinNode props))
      | Some (SubQueryBuilder props) \<Rightarrow>
          Some (Seen_SubQueryBuilder (plugins_of s (executor props)) (adapter props))
      | Some (QueryBuilder props) \<Rightarrow>
          Some (Seen_QueryBuilder (queryId props) (plugins_of s (executor props))
                  (adapter props) (queryNode props))
      | Some (NoopQueryExecutor plugins) \<Rightarrow> Some (Seen_NoopQueryExecutor plugins))"

text \<open>The observable result of a call: the exception, or the observation of the result.\<close>

fun outcome :: "(error + ref) \<times> state \<Rightarrow> error + observation option" where
  "outcome (Inl e, s) = Inl e"
| "outcome (Inr r, s) = Inr (observe s r)"

section \<open>A small instance of the collaborators\<close>

text \<open>
  Stand-ins for the parsers, used only to run the model on concrete inputs: a comparison
  is three strings with the operator among four, a reference comparison likewise, and a
  table is any non-empty name.
\<close>

definition sample_operators :: "string list" where
  "sample_operators = [''='', ''!='', ''<'', ''>'']"

definition sample_cmp :: "string \<Rightarrow> string \<Rightarrow> string \<Rightarrow> node" where
  "sample_cmp lhs op rhs =
     OtherNode ''BinaryOperationNode'' [OtherNode lhs [], OtherNode op [], OtherNode rhs []]"

definition sample_comparison :: "string \<Rightarrow> string \<Rightarrow> string \<Rightarrow> error + node" where
  "sample_comparison lhs op rhs =
     (if op \<in> set sample_operators then Inr (sample_cmp lhs op rhs) else Inl InvalidOperator)"

definition sample_collaborators :: "(string, DialectAdapter) collaborators" where
  "sample_collaborators =
     \<lparr>parseOn = (\<lambda>args. case args of
                   [lhs, op, rhs] \<Rightarrow> sample_comparison lhs op rhs
                 | _ \<Rightarrow> Inl InvalidArgument),
      parseReferentialComparison = sample_comparison,
      parseExists = (\<lambda>arg. Inr (OtherNode ''exists'' [OtherNode arg []])),
      parseNotExists = (\<lambda>arg. Inr (OtherNode ''not exists'' [OtherNode arg []])),
      createParseContext = (\<lambda>ad. ad),
      parseTableExpressionOrList = (\<lambda>ctx tbl.
        if tbl = [] then Inl InvalidTableExpression
        else Inr [OtherNode ''TableNode'' [OtherNode tbl []]])\<rparr>"

definition sample_join :: JoinNode where
  "sample_join =
     \<lparr>joinType = ''InnerJoin'', table = OtherNode ''TableNode'' [OtherNode ''pet'' []],
      on_clause = None\<rparr>"

definition sample_join_on :: JoinNode where
  "sample_join_on = sample_join\<lparr>on_clause := Some (sample_cmp ''a'' ''='' ''b'')\<rparr>"

text \<open>
  A state with an executor without plugins at 0, a \<^verbatim>\<open>SubQueryBuilder\<close> at 1, a
  \<^verbatim>\<open>JoinBuilder\<close> without an on clause at 2 and one with an on clause at 3.
\<close>

definition sample_state :: state where
  "sample_state =
     \<lparr>heap = [NoopQueryExecutor [],
              SubQueryBuilder \<lparr>executor = 0, adapter = DialectAdapter 7\<rparr>,
              JoinBuilder \<lparr>joinNode = sample_join\<rparr>,
              JoinBuilder \<lparr>joinNode = sample_join_on\<rparr>],
      issued = 0,
      calls = []\<rparr>"

section \<open>The methods in closed form\<close>

lemma join_step:
  "bindM (JoinBuilder_props this) (\<lambda>props.
     bindM (external ev1 r) (\<lambda>operation.
     bindM (external ev2 (Inr (cl (joinNode props) operation))) (\<lambda>jn.
     new (JoinBuilder (props\<lparr>joinNode := jn\<rparr>))))) s =
   (case lookup s this of
      Some (JoinBuilder props) \<Rightarrow>
        (case r of
           Inl e \<Rightarrow> (Inl e, s\<lparr>calls := calls s @ [ev1]\<rparr>)
         | Inr operation \<Rightarrow>
             (Inr (length (heap s)),
              s\<lparr>heap := heap s @ [JoinBuilder (props\<lparr>joinNode := cl (joinNode props) operation\<rparr>)],
                calls := calls s @ [ev1, ev2]\<rparr>))
    | _ \<Rightarrow> (Inl TypeError, s))"
  by (simp add: bindM_def JoinBuilder_props_def external_def new_def lookup_def
           split: option.splits obj.splits sum.splits)

lemma invoke_join_eval:
  "invoke_join P b m s =
   (case lookup s b of
      Some (JoinBuilder props) \<Rightarrow>
        (case fragment P m of
           Inl e \<Rightarrow> (Inl e, s\<lparr>calls := calls s @ [parse_call m]\<rparr>)
         | Inr f \<Rightarrow>
             (Inr (length (heap s)),
              s\<lparr>heap := heap s @
                   [JoinBuilder (props\<lparr>joinNode := clone (connective_of m) (joinNode props) f\<rparr>)],
                calls := calls s @ [parse_call m, clone_call (connective_of m)]\<rparr>))
    | _ \<Rightarrow> (Inl TypeError, s))"
  by (induct m)
     (simp_all add: on_def orOn_def onRef_def orOnRef_def onExists_def onNotExists_def
        orOnExists_def orOnNotExists_def onTrue_def join_step
      split: option.splits obj.splits sum.splits)

lemma withSchema_eval:
  "withSchema b schema s =
   (case lookup s b of
      Some (SubQueryBuilder props) \<Rightarrow>
        (case lookup s (executor props) of
           Some (NoopQueryExecutor plugins) \<Rightarrow>
             (Inr (Suc (length (heap s))),
              s\<lparr>heap := heap s @
                   [NoopQueryExecutor (WithSchemaPlugin schema # plugins),
                    SubQueryBuilder (props\<lparr>executor := length (heap s)\<rparr>)],
                calls := calls s @
                   [Call_withPluginAtFront (executor props) (WithSchemaPlugin schema)]\<rparr>)
         | _ \<Rightarrow> (Inl TypeError, s))
    | _ \<Rightarrow> (Inl TypeError, s))"
  by (simp add: withSchema_def withPluginAtFront_def bindM_def SubQueryBuilder_props_def
        external_def new_def lookup_def
      split: option.splits obj.splits sum.splits)

lemma subQuery_eval:
  "subQuery P b tbl s =
   (case lookup s b of
      Some (SubQueryBuilder props) \<Rightarrow>
        (case parseTableExpressionOrList P (createParseContext P (adapter props)) tbl of
           Inl e \<Rightarrow>
             (Inl e,
              s\<lparr>issued := Suc (issued s),
                calls := calls s @
                   [Call_createQueryId, Call_createParseContext (adapter props),
                    Call_parseTableExpressionOrList]\<rparr>)
         | Inr items \<Rightarrow>
             (Inr (length (heap s)),
              s\<lparr>heap := heap s @
                   [QueryBuilder
                      \<lparr>executor = executor props, adapter = adapter props,
                       queryId = QueryId (issued s),
                       queryNode = SelectQueryNode_create items\<rparr>],
                issued := Suc (issued s),
                calls := calls s @
                   [Call_createQueryId, Call_createParseContext (adapter props),
                    Call_parseTableExpressionOrList, Call_SelectQueryNode_create]\<rparr>))
    | _ \<Rightarrow>
        (Inl TypeError,
         s\<lparr>issued := Suc (issued s), calls := calls s @ [Call_createQueryId]\<rparr>))"
  by (simp add: subQuery_def parseContext_def createQueryId_def bindM_def
        SubQueryBuilder_props_def external_def new_def lookup_def
      split: option.splits obj.splits sum.splits)

lemma toOperationNode_eval:
  "toOperationNode b s =
   (case lookup s b of
      Some (JoinBuilder props) \<Rightarrow> (Inr (joinNode props), s)
    | _ \<Rightarrow> (Inl TypeError, s))"
  by (simp add: toOperationNode_def bindM_def returnM_def JoinBuilder_props_def
      split: option.splits obj.splits)

lemma lookup_grown:
  "heap s' = heap s @ objs \<Longrightarrow> r < length (heap s) \<Longrightarrow> lookup s' r = lookup s r"
  by (simp add: lookup_def nth_append)

lemma lookup_Some_less: "lookup s r = Some ob \<Longrightarrow> r < length (heap s)"
  by (simp add: lookup_def split: if_splits)

text \<open>Every call only appends to the heap, and appends nothing when it throws.\<close>

lemma invoke_join_heap:
  "invoke_join P b m s = (res, s') \<Longrightarrow>
   issued s' = issued s \<and>
   (case res of
      Inl e \<Rightarrow> heap s' = heap s
    | Inr r \<Rightarrow> r = length (heap s) \<and> (\<exists>ob. heap s' = heap s @ [ob]))"
  by (auto simp: invoke_join_eval split: option.splits obj.splits sum.splits)

lemma invoke_sub_heap:
  "invoke_sub P b m s = (res, s') \<Longrightarrow>
   issued s \<le> issued s' \<and>
   (case res of
      Inl e \<Rightarrow> heap s' = heap s
    | Inr r \<Rightarrow> length (heap s) \<le> r \<and> r < length (heap s') \<and> (\<exists>obs. heap s' = heap s @ obs))"
  by (cases m) (auto simp: subQuery_eval withSchema_eval split: option.splits obj.splits sum.splits)

lemma invoke_heap:
  assumes "invoke P b m s = (res, s')"
  shows "issued s \<le> issued s' \<and>
   (case res of
      Inl e \<Rightarrow> heap s' = heap s
    | Inr r \<Rightarrow> length (heap s) \<le> r \<and> r < length (heap s') \<and> (\<exists>obs. heap s' = heap s @ obs))"
proof (cases m)
  case (JoinBuilder_method jm)
  with assms have "invoke_join P b jm s = (res, s')" by simp
  from invoke_join_heap [OF this] show ?thesis
    by (cases res) auto
next
  case (SubQueryBuilder_method sm)
  with assms have "invoke_sub P b sm s = (res, s')" by simp
  from invoke_sub_heap [OF this] show ?thesis .
qed

lemma plugins_of_grown:
  "heap s' = heap s @ objs \<Longrightarrow> ex < length (heap s) \<Longrightarrow> plugins_of s' ex = plugins_of s ex"
  by (simp add: plugins_of_def lookup_grown)

lemma schemas_adapter:
  "lookup s b = Some (SubQueryBuilder props) \<Longrightarrow>
   plugins_of s (executor props) = Some plugins \<Longrightarrow>
   \<exists>d s' props'. schemas b xs s = (Inr d, s') \<and>
      lookup s' d = Some (SubQueryBuilder props') \<and>
      adapter props' = adapter props \<and>
      plugins_of s' (executor props') = Some (rev (map WithSchemaPlugin xs) @ plugins)"
proof (induction xs arbitrary: s b props plugins)
  case Nil
  then show ?case by (simp add: returnM_def)
next
  case (Cons x xs)
  let ?d1 = "Suc (length (heap s))"
  let ?p1 = "props\<lparr>executor := length (heap s)\<rparr>"
  from Cons.prems have ex: "lookup s (executor props) = Some (NoopQueryExecutor plugins)"
    by (auto simp: plugins_of_def split: option.splits obj.splits)
  with Cons.prems obtain s1 where step: "withSchema b x s = (Inr ?d1, s1)"
    and h: "heap s1 = heap s @ [NoopQueryExecutor (WithSchemaPlugin x # plugins),
                                 SubQueryBuilder ?p1]"
    by (simp add: withSchema_eval)
  from h have d1: "lookup s1 ?d1 = Some (SubQueryBuilder ?p1)"
    by (simp add: lookup_def nth_append)
  from h have e1: "plugins_of s1 (executor ?p1) = Some (WithSchemaPlugin x # plugins)"
    by (simp add: plugins_of_def lookup_def nth_append)
  from Cons.IH [OF d1 e1] obtain d s' props' where
    "schemas ?d1 xs s1 = (Inr d, s')" "lookup s' d = Some (SubQueryBuilder props')"
    "adapter props' = adapter ?p1"
    "plugins_of s' (executor props') = Some (rev (map WithSchemaPlugin xs) @ WithSchemaPlugin x # plugins)"
    by blast
  with step show ?case
    by (simp add: bindM_def)
qed

lemma invoke_join_extended:
  "lookup s b = Some (JoinBuilder props) \<Longrightarrow>
   invoke_join P b m s = extended s props (parse_call m) (connective_of m) (fragment P m)"
  by (simp add: invoke_join_eval extended_def)

lemma clone_spec_compose:
  "clone k j f = j\<lparr>on_clause := spec_compose (on_clause j) (k, f)\<rparr>"
  by (cases k; cases "on_clause j") (simp_all add: cloneWithOn_def cloneWithOrOn_def)

lemma chain_on_clause:
  "lookup s b = Some (JoinBuilder props) \<Longrightarrow>
   map (fragment P) ms = map Inr fs \<Longrightarrow>
   \<exists>r s'. chain P b ms s = (Inr r, s') \<and>
     lookup s' r = Some (JoinBuilder (props\<lparr>joinNode := (joinNode props)
       \<lparr>on_clause := spec_on_clause (on_clause (joinNode props))
                       (zip (map connective_of ms) fs)\<rparr>\<rparr>))"
proof (induction ms arbitrary: s b props fs)
  case Nil
  then show ?case by (simp add: returnM_def spec_on_clause_def)
next
  case (Cons m ms)
  from Cons.prems(2) obtain f fs' where fs: "fs = f # fs'" and f: "fragment P m = Inr f"
    and rest: "map (fragment P) ms = map Inr fs'"
    by (cases fs) auto
  let ?p1 = "props\<lparr>joinNode := clone (connective_of m) (joinNode props) f\<rparr>"
  from Cons.prems(1) f obtain s1 where
    step: "invoke_join P b m s = (Inr (length (heap s)), s1)"
    and h: "heap s1 = heap s @ [JoinBuilder ?p1]"
    by (simp add: invoke_join_eval)
  from h have v1: "lookup s1 (length (heap s)) = Some (JoinBuilder ?p1)"
    by (simp add: lookup_def)
  from Cons.IH [OF v1 rest] obtain r s' where
    c: "chain P (length (heap s)) ms s1 = (Inr r, s')"
    and l: "lookup s' r = Some (JoinBuilder (?p1\<lparr>joinNode := (joinNode ?p1)
       \<lparr>on_clause := spec_on_clause (on_clause (joinNode ?p1))
                       (zip (map connective_of ms) fs')\<rparr>\<rparr>))"
    by blast
  from step c have "chain P b (m # ms) s = (Inr r, s')"
    by (simp add: bindM_def)
  moreover from l have "lookup s' r = Some (JoinBuilder (props\<lparr>joinNode := (joinNode props)
       \<lparr>on_clause := spec_on_clause (on_clause (joinNode props))
                       (zip (map connective_of (m # ms)) fs)\<rparr>\<rparr>))"
    by (simp add: fs clone_spec_compose spec_on_clause_def)
  ultimately show ?case by blast
qed

lemma spec_and_tree:
  "spec_on_clause (Some c) (map (Pair Conjunction) cs) = Some (foldl AndNode c cs)"
  by (induction cs arbitrary: c) (simp_all add: spec_on_clause_def)

lemma zip_all_conjunctions:
  "list_all (\<lambda>m. connective_of m = Conjunction) ms \<Longrightarrow> length ms = length fs \<Longrightarrow>
   zip (map connective_of ms) fs = map (Pair Conjunction) fs"
  by (induction ms fs rule: list_induct2') simp_all

lemma spec_and_tree_from:
  "spec_on_clause c (map (Pair Conjunction) fs) =
   (case c of
      Some c' \<Rightarrow> Some (foldl AndNode c' fs)
    | None \<Rightarrow> (case fs of [] \<Rightarrow> None | f # fs' \<Rightarrow> Some (foldl AndNode f fs')))"
proof (cases c)
  case None
  then show ?thesis
    using spec_and_tree by (cases fs) (simp_all add: spec_on_clause_def)
next
  case (Some c')
  then show ?thesis by (simp add: spec_and_tree)
qed

lemma lookup_same_heap: "heap s' = heap s \<Longrightarrow> lookup s' r = lookup s r"
  by (simp add: lookup_def)

lemma invoke_join_result:
  "fst (invoke_join P b m s) =
   (case lookup s b of
      Some (JoinBuilder props) \<Rightarrow>
        (case fragment P m of Inl e \<Rightarrow> Inl e | Inr f \<Rightarrow> Inr (length (heap s)))
    | _ \<Rightarrow> Inl TypeError)"
  by (simp add: invoke_join_eval split: option.splits obj.splits sum.splits)

lemma invoke_sub_result:
  "fst (invoke_sub P b m s) =
   (case lookup s b of
      Some (SubQueryBuilder props) \<Rightarrow>
        (case m of
           SubQuery tbl \<Rightarrow>
             (case parseTableExpressionOrList P (createParseContext P (adapter props)) tbl of
                Inl e \<Rightarrow> Inl e
              | Inr items \<Rightarrow> Inr (length (heap s)))
         | WithSchema schema \<Rightarrow>
             (case lookup s (executor props) of
                Some (NoopQueryExecutor plugins) \<Rightarrow> Inr (Suc (length (heap s)))
              | _ \<Rightarrow> Inl TypeError))
    | _ \<Rightarrow> Inl TypeError)"
  by (cases m)
     (simp_all add: subQuery_eval withSchema_eval split: option.splits obj.splits sum.splits)

lemma invoke_result_same_heap:
  assumes "heap s' = heap s"
  shows "fst (invoke P b m s') = fst (invoke P b m s)"
proof (cases m)
  case (JoinBuilder_method jm)
  then show ?thesis
    by (simp add: invoke_join_result lookup_same_heap [OF assms] assms
          split: option.splits obj.splits sum.splits)
next
  case (SubQueryBuilder_method sm)
  then show ?thesis
    by (simp add: invoke_sub_result lookup_same_heap [OF assms] assms
          split: option.splits obj.splits sum.splits sub_query_method.splits)
qed

lemma invoke_success_valid:
  assumes "invoke P b m s = (Inr r, s')"
  shows "b < length (heap s)"
proof (cases m)
  case (JoinBuilder_method jm)
  with assms have "fst (invoke_join P b jm s) = Inr r" by simp
  then show ?thesis
    by (auto simp: invoke_join_result dest: lookup_Some_less split: option.splits)
next
  case (SubQueryBuilder_method sm)
  with assms have "fst (invoke_sub P b sm s) = Inr r" by simp
  then show ?thesis
    by (auto simp: invoke_sub_result dest: lookup_Some_less split: option.splits)
qed

lemma invoke_result_class:
  assumes "invoke P b m s = (Inr r, s')"
  shows "case m of
           JoinBuilder_method jm \<Rightarrow> \<exists>p. lookup s' r = Some (JoinBuilder p)
         | SubQueryBuilder_method (SubQuery tbl) \<Rightarrow> \<exists>p. lookup s' r = Some (QueryBuilder p)
         | SubQueryBuilder_method (WithSchema schema) \<Rightarrow>
             \<exists>p. lookup s' r = Some (SubQueryBuilder p)"
proof (cases m)
  case (JoinBuilder_method jm)
  with assms have "invoke_join P b jm s = (Inr r, s')" by simp
  then have "\<exists>p. lookup s' r = Some (JoinBuilder p)"
    by (auto simp: invoke_join_eval lookup_def split: option.splits obj.splits sum.splits)
  with JoinBuilder_method show ?thesis by simp
next
  case (SubQueryBuilder_method sm)
  with assms have *: "invoke_sub P b sm s = (Inr r, s')" by simp
  show ?thesis
  proof (cases sm)
    case (SubQuery tbl)
    with * have "\<exists>p. lookup s' r = Some (QueryBuilder p)"
      by (auto simp: subQuery_eval lookup_def split: option.splits obj.splits sum.splits)
    with SubQueryBuilder_method SubQuery show ?thesis by simp
  next
    case (WithSchema schema)
    with * have "\<exists>p. lookup s' r = Some (SubQueryBuilder p)"
      by (auto simp: withSchema_eval lookup_def nth_append
            split: option.splits obj.splits sum.splits)
    with SubQueryBuilder_method WithSchema show ?thesis by simp
  qed
qed

lemma subQuery_after_withSchema:
  assumes "withSchema b schema s = (res, s')"
  shows "outcome (subQuery P b tbl s') = outcome (subQuery P b tbl s)"
proof (cases "lookup s b")
  case None
  with assms have "s' = s" by (simp add: withSchema_eval)
  then show ?thesis by simp
next
  case (Some ob)
  show ?thesis
  proof (cases ob)
    case (SubQueryBuilder props)
    show ?thesis
    proof (cases "plugins_of s (executor props)")
      case None
      with Some SubQueryBuilder assms have "s' = s"
        by (simp add: withSchema_eval plugins_of_def split: option.splits obj.splits)
      then show ?thesis by simp
    next
      case (Some plugins)
      then have ex: "lookup s (executor props) = Some (NoopQueryExecutor plugins)"
        by (simp add: plugins_of_def split: option.splits obj.splits)
      then have lt: "executor props < length (heap s)" by (rule lookup_Some_less)
      from \<open>lookup s b = Some ob\<close> have ltb: "b < length (heap s)" by (rule lookup_Some_less)
      from \<open>lookup s b = Some ob\<close> SubQueryBuilder ex assms
      have h: "heap s' = heap s @ [NoopQueryExecutor (WithSchemaPlugin schema # plugins),
                    SubQueryBuilder (props\<lparr>executor := length (heap s)\<rparr>)]"
        and i: "issued s' = issued s"
        by (auto simp: withSchema_eval)
      have b': "lookup s' b = Some (SubQueryBuilder props)"
        using lookup_grown [OF h ltb] \<open>lookup s b = Some ob\<close> SubQueryBuilder by simp
      have b0: "lookup s b = Some (SubQueryBuilder props)"
        using \<open>lookup s b = Some ob\<close> SubQueryBuilder by simp
      show ?thesis
      proof (cases "parseTableExpressionOrList P (createParseContext P (adapter props)) tbl")
        case (Inl e)
        then show ?thesis by (simp add: subQuery_eval b' b0)
      next
        case (Inr items)
        let ?q = "QueryBuilder
                      \<lparr>executor = executor props, adapter = adapter props,
                       queryId = QueryId (issued s),
                       queryNode = SelectQueryNode_create items\<rparr>"
        obtain t where q: "subQuery P b tbl s = (Inr (length (heap s)), t)"
          and t: "heap t = heap s @ [?q]"
          using Inr by (simp add: subQuery_eval b0)
        obtain t' where q': "subQuery P b tbl s' = (Inr (length (heap s')), t')"
          and t': "heap t' = heap s' @ [?q]"
          using Inr i by (simp add: subQuery_eval b')
        have "observe t (length (heap s)) =
              Some (Seen_QueryBuilder (QueryId (issued s)) (Some plugins) (adapter props)
                      (SelectQueryNode_create items))"
          using t lt ex by (simp add: observe_def plugins_of_def lookup_def nth_append)
        moreover have "observe t' (length (heap s')) =
              Some (Seen_QueryBuilder (QueryId (issued s)) (Some plugins) (adapter props)
                      (SelectQueryNode_create items))"
          using t' h lt ex by (simp add: observe_def plugins_of_def lookup_def nth_append)
        ultimately show ?thesis by (simp add: q q')
      qed
    qed
  next
    case (JoinBuilder x)
    with Some assms have "s' = s" by (simp add: withSchema_eval)
    then show ?thesis by simp
  next
    case (QueryBuilder x)
    with Some assms have "s' = s" by (simp add: withSchema_eval)
    then show ?thesis by simp
  next
    case (NoopQueryExecutor x)
    with Some assms have "s' = s" by (simp add: withSchema_eval)
    then show ?thesis by simp
  qed
qed

lemma run_grows:
  "\<exists>obs. heap (run P cs s) = heap s @ obs \<and> issued s \<le> issued (run P cs s)"
proof (induction cs arbitrary: s)
  case Nil
  show ?case by simp
next
  case (Cons c cs)
  obtain b m where c: "c = (b, m)" by (cases c)
  obtain res s1 where i: "invoke P b m s = (res, s1)" by (cases "invoke P b m s")
  from invoke_heap [OF i] obtain obs1 where
    1: "heap s1 = heap s @ obs1" "issued s \<le> issued s1"
    by (cases res) auto
  from Cons.IH [of s1] obtain obs2 where
    2: "heap (run P cs s1) = heap s1 @ obs2" "issued s1 \<le> issued (run P cs s1)"
    by blast
  from 1 2 c i show ?case by simp
qed

lemma withSchema_adapter:
  assumes "withSchema b schema s = (Inr d, s')"
    and "lookup s b = Some (SubQueryBuilder p)"
  shows "\<exists>p'. lookup s' d = Some (SubQueryBuilder p') \<and> adapter p' = adapter p"
proof -
  from assms obtain plugins where
    ex: "lookup s (executor p) = Some (NoopQueryExecutor plugins)"
    by (auto simp: withSchema_eval split: option.splits obj.splits)
  with assms have d: "d = Suc (length (heap s))"
    and h: "heap s' = heap s @ [NoopQueryExecutor (WithSchemaPlugin schema # plugins),
                    SubQueryBuilder (p\<lparr>executor := length (heap s)\<rparr>)]"
    by (auto simp: withSchema_eval)
  from h d have "lookup s' d = Some (SubQueryBuilder (p\<lparr>executor := length (heap s)\<rparr>))"
    by (simp add: lookup_def nth_append)
  then show ?thesis by simp
qed




section \<open>withSchema and the adapter\<close>

text \<open>
  C10. For every \<^verbatim>\<open>SubQueryBuilder\<close> \<open>b\<close> and schema name, \<^verbatim>\<open>b.withSchema(schema)\<close> returns a new
  builder whose adapter is the very adapter of \<open>b\<close>; only the executor field changes: it is a
  new executor with \<^verbatim>\<open>WithSchemaPlugin(schema)\<close> put in front of the plugins of the executor
  of \<open>b\<close>, and \<open>b\<close> keeps its properties. So the parse context the derived builder computes
  is the one made from the adapter of \<open>b\<close>, also after any number of \<^verbatim>\<open>withSchema\<close> calls.
\<close>

theorem withSchema_keeps_adapter:
  assumes "lookup s b = Some (SubQueryBuilder props)"
    and "lookup s (executor props) = Some (NoopQueryExecutor plugins)"
  shows "\<exists>d s' ex.
           withSchema b schema s = (Inr d, s') \<and>
           lookup s' d = Some (SubQueryBuilder \<lparr>executor = ex, adapter = adapter props\<rparr>) \<and>
           lookup s ex = None \<and>
           lookup s' ex = Some (NoopQueryExecutor (WithSchemaPlugin schema # plugins)) \<and>
           lookup s' b = Some (SubQueryBuilder props) \<and>
           parseContext P d s' =
             (Inr (createParseContext P (adapter props)),
              s'\<lparr>calls := calls s' @ [Call_createParseContext (adapter props)]\<rparr>) \<and>
           (\<forall>xs. \<exists>d' t props'.
              schemas b xs s = (Inr d', t) \<and>
              lookup t d' = Some (SubQueryBuilder props') \<and>
              adapter props' = adapter props \<and>
              fst (parseContext P d' t) = Inr (createParseContext P (adapter props)))"
proof -
  have lt: "b < length (heap s)" "executor props < length (heap s)"
    using assms by (auto dest: lookup_Some_less)
  let ?ex = "length (heap s)"
  obtain s' where 1: "withSchema b schema s = (Inr (Suc ?ex), s')"
    and h: "heap s' = heap s @ [NoopQueryExecutor (WithSchemaPlugin schema # plugins),
                    SubQueryBuilder (props\<lparr>executor := ?ex\<rparr>)]"
    using assms by (simp add: withSchema_eval)
  have 2: "lookup s' (Suc ?ex) = Some (SubQueryBuilder \<lparr>executor = ?ex, adapter = adapter props\<rparr>)"
    using h by (simp add: lookup_def nth_append)
  have 3: "lookup s ?ex = None" by (simp add: lookup_def)
  have 4: "lookup s' ?ex = Some (NoopQueryExecutor (WithSchemaPlugin schema # plugins))"
    using h by (simp add: lookup_def nth_append)
  have 5: "lookup s' b = Some (SubQueryBuilder props)"
    using lookup_grown [OF h lt(1)] assms by simp
  have 6: "parseContext P (Suc ?ex) s' =
             (Inr (createParseContext P (adapter props)),
              s'\<lparr>calls := calls s' @ [Call_createParseContext (adapter props)]\<rparr>)"
    using 2 by (simp add: parseContext_def bindM_def SubQueryBuilder_props_def external_def)
  have 7: "\<exists>d' t props'.
              schemas b xs s = (Inr d', t) \<and>
              lookup t d' = Some (SubQueryBuilder props') \<and>
              adapter props' = adapter props \<and>
              fst (parseContext P d' t) = Inr (createParseContext P (adapter props))" for xs
  proof -
    have "plugins_of s (executor props) = Some plugins"
      using assms by (simp add: plugins_of_def)
    from schemas_adapter [OF assms(1) this, of xs] obtain d' t props' where
      *: "schemas b xs s = (Inr d', t)" "lookup t d' = Some (SubQueryBuilder props')"
         "adapter props' = adapter props" by blast
    then have "fst (parseContext P d' t) = Inr (createParseContext P (adapter props))"
      by (simp add: parseContext_def bindM_def SubQueryBuilder_props_def external_def)
    with * show ?thesis by blast
  qed
  from 1 2 3 4 5 6 7 show ?thesis by blast
qed

theorem withSchema_keeps_adapter_witness:
  "lookup sample_state 1 = Some (SubQueryBuilder \<lparr>executor = 0, adapter = DialectAdapter 7\<rparr>) \<and>
   lookup sample_state 0 = Some (NoopQueryExecutor []) \<and>
   (\<exists>d s' ex. withSchema 1 ''audit'' sample_state = (Inr d, s') \<and>
      lookup s' d = Some (SubQueryBuilder \<lparr>executor = ex, adapter = DialectAdapter 7\<rparr>) \<and>
      lookup s' ex = Some (NoopQueryExecutor [WithSchemaPlugin ''audit'']))"
proof -
  have a: "lookup sample_state 1 =
           Some (SubQueryBuilder \<lparr>executor = 0, adapter = DialectAdapter 7\<rparr>)"
    by (simp add: lookup_def sample_state_def)
  have b: "lookup sample_state (executor \<lparr>executor = 0, adapter = DialectAdapter 7\<rparr>) =
           Some (NoopQueryExecutor [])"
    by (simp add: lookup_def sample_state_def)
  from withSchema_keeps_adapter [OF a b, of "''audit''" sample_collaborators] a b
  show ?thesis by auto
qed

section \<open>The shape of the on clause\<close>

text \<open>
  C2. With \<^verbatim>\<open>cloneWithOn\<close> and \<^verbatim>\<open>cloneWithOrOn\<close> as the spec describes them, a chain of
  \<^verbatim>\<open>JoinBuilder\<close> calls whose parsers succeed builds the on clause that the spec's rule
  gives: every fragment is joined to the whole clause accumulated so far, left to right,
  by AND for the \<^verbatim>\<open>on\<close> family and by OR for the \<^verbatim>\<open>orOn\<close> family. From an empty clause,
  conjunctions alone give a left-associated AND-tree, \<^verbatim>\<open>on.orOn\<close> gives \<open>OR(c1, c2)\<close>, a further
  \<^verbatim>\<open>on\<close> gives \<open>AND(OR(c1, c2), c3)\<close>, and \<^verbatim>\<open>on.on.orOn.on\<close> gives
  \<open>AND(OR(AND(c1, c2), c3), c4)\<close>.
\<close>

theorem and_or_tree_shape:
  assumes "lookup s b = Some (JoinBuilder props)"
    and "map (fragment P) ms = map Inr fs"
  shows "\<exists>r s' j. chain P b ms s = (Inr r, s') \<and>
     toOperationNode r s' = (Inr j, s') \<and>
     j = (joinNode props)
           \<lparr>on_clause := spec_on_clause (on_clause (joinNode props))
                           (zip (map connective_of ms) fs)\<rparr> \<and>
     (list_all (\<lambda>m. connective_of m = Conjunction) ms \<longrightarrow>
        on_clause j =
          (case on_clause (joinNode props) of
             Some c \<Rightarrow> Some (foldl AndNode c fs)
           | None \<Rightarrow> (case fs of [] \<Rightarrow> None | f # fs' \<Rightarrow> Some (foldl AndNode f fs')))) \<and>
     spec_on_clause None [(Conjunction, c1), (Disjunction, c2)] = Some (OrNode c1 c2) \<and>
     spec_on_clause None [(Conjunction, c1), (Disjunction, c2), (Conjunction, c3)] =
       Some (AndNode (OrNode c1 c2) c3) \<and>
     spec_on_clause None
       [(Conjunction, c1), (Conjunction, c2), (Disjunction, c3), (Conjunction, c4)] =
       Some (AndNode (OrNode (AndNode c1 c2) c3) c4)"
proof -
  let ?j = "(joinNode props)
           \<lparr>on_clause := spec_on_clause (on_clause (joinNode props))
                           (zip (map connective_of ms) fs)\<rparr>"
  from chain_on_clause [OF assms] obtain r s' where
    c: "chain P b ms s = (Inr r, s')"
    and l: "lookup s' r = Some (JoinBuilder (props\<lparr>joinNode := ?j\<rparr>))"
    by blast
  from l have t: "toOperationNode r s' = (Inr ?j, s')"
    by (simp add: toOperationNode_eval)
  from assms(2) have len: "length ms = length fs"
    by (metis length_map)
  have a: "on_clause ?j =
          (case on_clause (joinNode props) of
             Some c \<Rightarrow> Some (foldl AndNode c fs)
           | None \<Rightarrow> (case fs of [] \<Rightarrow> None | f # fs' \<Rightarrow> Some (foldl AndNode f fs')))"
    if "list_all (\<lambda>m. connective_of m = Conjunction) ms"
    using zip_all_conjunctions [OF that len] spec_and_tree_from [of "on_clause (joinNode props)" fs]
    by simp
  have b: "spec_on_clause None [(Conjunction, c1), (Disjunction, c2)] = Some (OrNode c1 c2)"
    "spec_on_clause None [(Conjunction, c1), (Disjunction, c2), (Conjunction, c3)] =
       Some (AndNode (OrNode c1 c2) c3)"
    "spec_on_clause None
       [(Conjunction, c1), (Conjunction, c2), (Disjunction, c3), (Conjunction, c4)] =
       Some (AndNode (OrNode (AndNode c1 c2) c3) c4)"
    by (simp_all add: spec_on_clause_def)
  from c t a b show ?thesis by blast
qed

theorem and_or_tree_shape_witness:
  "lookup sample_state 2 = Some (JoinBuilder \<lparr>joinNode = sample_join\<rparr>) \<and>
   map (fragment sample_collaborators)
     [On [''a'', ''='', ''b''], OrOn [''c'', ''='', ''d''], On [''e'', ''='', ''f'']] =
   map Inr [sample_cmp ''a'' ''='' ''b'', sample_cmp ''c'' ''='' ''d'',
            sample_cmp ''e'' ''='' ''f''] \<and>
   (\<exists>r s'.
      chain sample_collaborators 2
        [On [''a'', ''='', ''b''], OrOn [''c'', ''='', ''d''], On [''e'', ''='', ''f'']]
        sample_state = (Inr r, s') \<and>
      toOperationNode r s' =
        (Inr (sample_join
           \<lparr>on_clause := Some (AndNode (OrNode (sample_cmp ''a'' ''='' ''b'')
                                               (sample_cmp ''c'' ''='' ''d''))
                                      (sample_cmp ''e'' ''='' ''f''))\<rparr>), s')) \<and>
   map (fragment sample_collaborators)
     [On [''a'', ''='', ''b''], OnRef ''c'' ''='' ''d'', OnTrue] =
   map Inr [sample_cmp ''a'' ''='' ''b'', sample_cmp ''c'' ''='' ''d'', RawNode ''true''] \<and>
   list_all (\<lambda>m. connective_of m = Conjunction)
     [On [''a'', ''='', ''b''], OnRef ''c'' ''='' ''d'', OnTrue] \<and>
   (\<exists>r s' j.
      chain sample_collaborators 2
        [On [''a'', ''='', ''b''], OnRef ''c'' ''='' ''d'', OnTrue] sample_state = (Inr r, s') \<and>
      toOperationNode r s' = (Inr j, s') \<and>
      on_clause j =
        Some (AndNode (AndNode (sample_cmp ''a'' ''='' ''b'') (sample_cmp ''c'' ''='' ''d''))
                (RawNode ''true'')))"
proof -
  let ?ms = "[On [''a'', ''='', ''b''], OrOn [''c'', ''='', ''d''], On [''e'', ''='', ''f'']]"
  let ?fs = "[sample_cmp ''a'' ''='' ''b'', sample_cmp ''c'' ''='' ''d'',
              sample_cmp ''e'' ''='' ''f'']"
  let ?ns = "[On [''a'', ''='', ''b''], OnRef ''c'' ''='' ''d'', OnTrue]"
  let ?gs = "[sample_cmp ''a'' ''='' ''b'', sample_cmp ''c'' ''='' ''d'', RawNode ''true'']"
  have a: "lookup sample_state 2 = Some (JoinBuilder \<lparr>joinNode = sample_join\<rparr>)"
    by (simp add: lookup_def sample_state_def)
  have b: "map (fragment sample_collaborators) ?ms = map Inr ?fs"
    by (simp add: sample_collaborators_def sample_comparison_def sample_operators_def)
  have b2: "map (fragment sample_collaborators) ?ns = map Inr ?gs"
    by (simp add: sample_collaborators_def sample_comparison_def sample_operators_def
          createWithSql_def)
  have all: "list_all (\<lambda>m. connective_of m = Conjunction) ?ns"
    by simp
  have c: "on_clause sample_join = None"
    by (simp add: sample_join_def)
  from and_or_tree_shape [OF a b] obtain r s' where
    r: "chain sample_collaborators 2 ?ms sample_state = (Inr r, s')"
    and t: "toOperationNode r s' =
       (Inr ((joinNode \<lparr>joinNode = sample_join\<rparr>)
          \<lparr>on_clause := spec_on_clause (on_clause (joinNode \<lparr>joinNode = sample_join\<rparr>))
             (zip (map connective_of ?ms) ?fs)\<rparr>), s')"
    by blast
  from t c have t': "toOperationNode r s' =
        (Inr (sample_join
           \<lparr>on_clause := Some (AndNode (OrNode (sample_cmp ''a'' ''='' ''b'')
                                               (sample_cmp ''c'' ''='' ''d''))
                                      (sample_cmp ''e'' ''='' ''f''))\<rparr>), s')"
    by (simp add: spec_on_clause_def)
  from and_or_tree_shape [OF a b2] all obtain r2 s2 j where
    r2: "chain sample_collaborators 2 ?ns sample_state = (Inr r2, s2)"
    and t2: "toOperationNode r2 s2 = (Inr j, s2)"
    and j: "on_clause j =
          (case on_clause (joinNode \<lparr>joinNode = sample_join\<rparr>) of
             Some c \<Rightarrow> Some (foldl AndNode c ?gs)
           | None \<Rightarrow> (case ?gs of [] \<Rightarrow> None | f # fs' \<Rightarrow> Some (foldl AndNode f fs')))"
    by blast
  from j c have j': "on_clause j =
        Some (AndNode (AndNode (sample_cmp ''a'' ''='' ''b'') (sample_cmp ''c'' ''='' ''d''))
                (RawNode ''true''))"
    by simp
  from a b r t' b2 all r2 t2 j' show ?thesis by blast
qed

section \<open>onTrue\<close>

text \<open>
  C6. Every call of \<^verbatim>\<open>onTrue()\<close> makes the raw fragment \<^verbatim>\<open>true\<close> and extends the on clause
  with it through \<^verbatim>\<open>cloneWithOn\<close>, that is, conjunctively. Two calls in a row on a builder
  without an on clause give the clause \<open>AND(true, true)\<close> (and \<open>AND(AND(c, true), true)\<close> on
  a builder with the clause \<open>c\<close>), which is not the single fragment \<^verbatim>\<open>true\<close>: nothing is
  simplified.
\<close>

theorem onTrue_conjuncts_true:
  assumes "lookup s b = Some (JoinBuilder props)"
  shows "\<exists>b1 s1 b2 s2.
     onTrue b s = (Inr b1, s1) \<and>
     calls s1 = calls s @ [Call_createWithSql ''true'', Call_cloneWithOn] \<and>
     toOperationNode b1 s1 = (Inr (cloneWithOn (joinNode props) (RawNode ''true'')), s1) \<and>
     onTrue b1 s1 = (Inr b2, s2) \<and>
     toOperationNode b2 s2 =
       (Inr ((joinNode props)\<lparr>on_clause :=
          Some (case on_clause (joinNode props) of
                  None \<Rightarrow> AndNode (RawNode ''true'') (RawNode ''true'')
                | Some c \<Rightarrow> AndNode (AndNode c (RawNode ''true'')) (RawNode ''true''))\<rparr>),
        s2) \<and>
     AndNode (RawNode ''true'') (RawNode ''true'') \<noteq> RawNode ''true''"
proof -
  let ?p1 = "props\<lparr>joinNode := cloneWithOn (joinNode props) (RawNode ''true'')\<rparr>"
  let ?b1 = "length (heap s)"
  from assms obtain s1 where
    1: "onTrue b s = (Inr ?b1, s1)"
    and h1: "heap s1 = heap s @ [JoinBuilder ?p1]"
    and c1: "calls s1 = calls s @ [Call_createWithSql ''true'', Call_cloneWithOn]"
    using invoke_join_eval [of P b OnTrue s] by (simp add: createWithSql_def)
  from h1 have v1: "lookup s1 ?b1 = Some (JoinBuilder ?p1)"
    by (simp add: lookup_def)
  then have t1: "toOperationNode ?b1 s1 =
      (Inr (cloneWithOn (joinNode props) (RawNode ''true'')), s1)"
    by (simp add: toOperationNode_eval)
  let ?j2 = "cloneWithOn (joinNode ?p1) (RawNode ''true'')"
  let ?b2 = "length (heap s1)"
  from v1 obtain s2 where
    2: "onTrue ?b1 s1 = (Inr ?b2, s2)"
    and h2: "heap s2 = heap s1 @ [JoinBuilder (?p1\<lparr>joinNode := ?j2\<rparr>)]"
    using invoke_join_eval [of P ?b1 OnTrue s1] by (simp add: createWithSql_def)
  from h2 have "lookup s2 ?b2 = Some (JoinBuilder (?p1\<lparr>joinNode := ?j2\<rparr>))"
    by (simp add: lookup_def)
  then have t2: "toOperationNode ?b2 s2 = (Inr ?j2, s2)"
    by (simp add: toOperationNode_eval)
  have shape: "?j2 = (joinNode props)\<lparr>on_clause :=
          Some (case on_clause (joinNode props) of
                  None \<Rightarrow> AndNode (RawNode ''true'') (RawNode ''true'')
                | Some c \<Rightarrow> AndNode (AndNode c (RawNode ''true'')) (RawNode ''true''))\<rparr>"
    by (simp add: cloneWithOn_def split: option.splits)
  have ne: "AndNode (RawNode ''true'') (RawNode ''true'') \<noteq> RawNode ''true''"
    by simp
  from 1 c1 t1 2 t2 shape ne show ?thesis by metis
qed

theorem onTrue_conjuncts_true_witness:
  "lookup sample_state 2 = Some (JoinBuilder \<lparr>joinNode = sample_join\<rparr>) \<and>
   (\<exists>b1 s1 b2 s2.
      onTrue 2 sample_state = (Inr b1, s1) \<and>
      onTrue b1 s1 = (Inr b2, s2) \<and>
      toOperationNode b2 s2 =
        (Inr (sample_join\<lparr>on_clause := Some (AndNode (RawNode ''true'') (RawNode ''true''))\<rparr>),
         s2))"
proof -
  have a: "lookup sample_state 2 = Some (JoinBuilder \<lparr>joinNode = sample_join\<rparr>)"
    by (simp add: lookup_def sample_state_def)
  have c: "on_clause sample_join = None"
    by (simp add: sample_join_def)
  from onTrue_conjuncts_true [OF a] obtain b1 s1 b2 s2 where
    *: "onTrue 2 sample_state = (Inr b1, s1)"
       "onTrue b1 s1 = (Inr b2, s2)"
    and t: "toOperationNode b2 s2 =
       (Inr ((joinNode \<lparr>joinNode = sample_join\<rparr>)\<lparr>on_clause :=
          Some (case on_clause (joinNode \<lparr>joinNode = sample_join\<rparr>) of
                  None \<Rightarrow> AndNode (RawNode ''true'') (RawNode ''true'')
                | Some c \<Rightarrow> AndNode (AndNode c (RawNode ''true'')) (RawNode ''true''))\<rparr>),
        s2)"
    by blast
  from t c have "toOperationNode b2 s2 =
        (Inr (sample_join\<lparr>on_clause := Some (AndNode (RawNode ''true'') (RawNode ''true''))\<rparr>),
         s2)"
    by simp
  with * a show ?thesis by blast
qed

section \<open>The await guard\<close>

text \<open>
  The sentence of C9 as written, that awaiting any builder of this core fails with a
  misuse error, is false for a \<^verbatim>\<open>SubQueryBuilder\<close>: the await of one returns the builder.
\<close>

theorem await_guard_counterexample:
  "await SubQueryBuilder_class 1 = Inr 1"
  by (simp add: await_def then_members_def preventAwait_def)

text \<open>
  C9, amended. Awaiting a \<^verbatim>\<open>JoinBuilder\<close> fails with the misuse error that carries the
  message given to \<^verbatim>\<open>preventAwait\<close>; a \<^verbatim>\<open>SubQueryBuilder\<close> has no such guard, and awaiting
  one returns the builder itself.
\<close>

theorem await_guard:
  "await JoinBuilder_class v = Inl (MisuseError JoinBuilder_await_message) \<and>
   await SubQueryBuilder_class v = Inr v"
  by (simp add: await_def then_members_def preventAwait_def)

section \<open>The deprecated methods\<close>

text \<open>
  C3. On a \<^verbatim>\<open>JoinBuilder\<close>, each deprecated method makes the step of the primary path with
  its own parser and connective: \<^verbatim>\<open>orOn\<close>, \<^verbatim>\<open>orOnRef\<close>, \<^verbatim>\<open>orOnExists\<close> and \<^verbatim>\<open>orOnNotExists\<close>
  extend the join node with \<^verbatim>\<open>cloneWithOrOn\<close> (a disjunction with the existing clause);
  \<^verbatim>\<open>onExists\<close> and \<^verbatim>\<open>onNotExists\<close> parse with \<^verbatim>\<open>parseExists\<close> and \<^verbatim>\<open>parseNotExists\<close> and extend
  with \<^verbatim>\<open>cloneWithOn\<close> (a conjunction). \<^verbatim>\<open>orOn\<close> parses with \<^verbatim>\<open>parseOn\<close> as \<^verbatim>\<open>on\<close> does, and
  \<^verbatim>\<open>orOnRef\<close> with \<^verbatim>\<open>parseReferentialComparison\<close> as \<^verbatim>\<open>onRef\<close> does; the two connectives
  build different nodes.
\<close>

theorem deprecated_methods_keep_connective:
  assumes "lookup s b = Some (JoinBuilder props)"
  shows
    "orOn P b args s = extended s props Call_parseOn Disjunction (parseOn P args) \<and>
     orOnRef P b lhs op rhs s =
       extended s props Call_parseReferentialComparison Disjunction
         (parseReferentialComparison P lhs op rhs) \<and>
     orOnExists P b arg s =
       extended s props Call_parseExists Disjunction (parseExists P arg) \<and>
     orOnNotExists P b arg s =
       extended s props Call_parseNotExists Disjunction (parseNotExists P arg) \<and>
     onExists P b arg s =
       extended s props Call_parseExists Conjunction (parseExists P arg) \<and>
     onNotExists P b arg s =
       extended s props Call_parseNotExists Conjunction (parseNotExists P arg) \<and>
     on P b args s = extended s props Call_parseOn Conjunction (parseOn P args) \<and>
     onRef P b lhs op rhs s =
       extended s props Call_parseReferentialComparison Conjunction
         (parseReferentialComparison P lhs op rhs) \<and>
     clone Disjunction j f =
       j\<lparr>on_clause := Some (case on_clause j of None \<Rightarrow> f | Some c \<Rightarrow> OrNode c f)\<rparr> \<and>
     clone Conjunction j f =
       j\<lparr>on_clause := Some (case on_clause j of None \<Rightarrow> f | Some c \<Rightarrow> AndNode c f)\<rparr> \<and>
     OrNode c f \<noteq> AndNode c f"
proof -
  note ev = invoke_join_extended [OF assms, of P]
  have "orOn P b args s = extended s props Call_parseOn Disjunction (parseOn P args)"
    using ev [of "OrOn args"] by simp
  moreover have "orOnRef P b lhs op rhs s =
       extended s props Call_parseReferentialComparison Disjunction
         (parseReferentialComparison P lhs op rhs)"
    using ev [of "OrOnRef lhs op rhs"] by simp
  moreover have "orOnExists P b arg s =
       extended s props Call_parseExists Disjunction (parseExists P arg)"
    using ev [of "OrOnExists arg"] by simp
  moreover have "orOnNotExists P b arg s =
       extended s props Call_parseNotExists Disjunction (parseNotExists P arg)"
    using ev [of "OrOnNotExists arg"] by simp
  moreover have "onExists P b arg s =
       extended s props Call_parseExists Conjunction (parseExists P arg)"
    using ev [of "OnExists arg"] by simp
  moreover have "onNotExists P b arg s =
       extended s props Call_parseNotExists Conjunction (parseNotExists P arg)"
    using ev [of "OnNotExists arg"] by simp
  moreover have "on P b args s = extended s props Call_parseOn Conjunction (parseOn P args)"
    using ev [of "On args"] by simp
  moreover have "onRef P b lhs op rhs s =
       extended s props Call_parseReferentialComparison Conjunction
         (parseReferentialComparison P lhs op rhs)"
    using ev [of "OnRef lhs op rhs"] by simp
  moreover have "clone Disjunction j f =
       j\<lparr>on_clause := Some (case on_clause j of None \<Rightarrow> f | Some c \<Rightarrow> OrNode c f)\<rparr>"
    by (simp add: cloneWithOrOn_def)
  moreover have "clone Conjunction j f =
       j\<lparr>on_clause := Some (case on_clause j of None \<Rightarrow> f | Some c \<Rightarrow> AndNode c f)\<rparr>"
    by (simp add: cloneWithOn_def)
  moreover have "OrNode c f \<noteq> AndNode c f" by simp
  ultimately show ?thesis by blast
qed

theorem deprecated_methods_keep_connective_witness:
  "lookup sample_state 3 = Some (JoinBuilder \<lparr>joinNode = sample_join_on\<rparr>) \<and>
   (\<exists>s'. orOn sample_collaborators 3 [''c'', ''='', ''d''] sample_state = (Inr 4, s') \<and>
      toOperationNode 4 s' =
        (Inr (sample_join\<lparr>on_clause :=
           Some (OrNode (sample_cmp ''a'' ''='' ''b'') (sample_cmp ''c'' ''='' ''d''))\<rparr>), s')) \<and>
   (\<exists>s'. onExists sample_collaborators 3 ''q'' sample_state = (Inr 4, s') \<and>
      toOperationNode 4 s' =
        (Inr (sample_join\<lparr>on_clause :=
           Some (AndNode (sample_cmp ''a'' ''='' ''b'')
                   (OtherNode ''exists'' [OtherNode ''q'' []]))\<rparr>), s')) \<and>
   fst (orOn sample_collaborators 3 [''c'', ''~'', ''d''] sample_state) = Inl InvalidOperator"
proof -
  have a: "lookup sample_state 3 = Some (JoinBuilder \<lparr>joinNode = sample_join_on\<rparr>)"
    by (simp add: lookup_def sample_state_def)
  have p: "parseOn sample_collaborators [''c'', ''='', ''d''] = Inr (sample_cmp ''c'' ''='' ''d'')"
    "parseOn sample_collaborators [''c'', ''~'', ''d''] = Inl InvalidOperator"
    "parseExists sample_collaborators ''q'' = Inr (OtherNode ''exists'' [OtherNode ''q'' []])"
    by (simp_all add: sample_collaborators_def sample_comparison_def sample_operators_def)
  have l: "length (heap sample_state) = 4"
    by (simp add: sample_state_def)
  note th = deprecated_methods_keep_connective [OF a, of sample_collaborators]
  have 1: "orOn sample_collaborators 3 [''c'', ''='', ''d''] sample_state =
      extended sample_state \<lparr>joinNode = sample_join_on\<rparr> Call_parseOn Disjunction
        (parseOn sample_collaborators [''c'', ''='', ''d''])"
    using th by blast
  have 2: "onExists sample_collaborators 3 ''q'' sample_state =
      extended sample_state \<lparr>joinNode = sample_join_on\<rparr> Call_parseExists Conjunction
        (parseExists sample_collaborators ''q'')"
    using th by blast
  have 3: "orOn sample_collaborators 3 [''c'', ''~'', ''d''] sample_state =
      extended sample_state \<lparr>joinNode = sample_join_on\<rparr> Call_parseOn Disjunction
        (parseOn sample_collaborators [''c'', ''~'', ''d''])"
    using th by blast
  have A: "\<exists>s'. orOn sample_collaborators 3 [''c'', ''='', ''d''] sample_state = (Inr 4, s') \<and>
      toOperationNode 4 s' =
        (Inr (sample_join\<lparr>on_clause :=
           Some (OrNode (sample_cmp ''a'' ''='' ''b'') (sample_cmp ''c'' ''='' ''d''))\<rparr>), s')"
    unfolding 1 p
    by (simp add: extended_def l toOperationNode_eval lookup_def cloneWithOrOn_def
          sample_join_on_def nth_append)
  have B: "\<exists>s'. onExists sample_collaborators 3 ''q'' sample_state = (Inr 4, s') \<and>
      toOperationNode 4 s' =
        (Inr (sample_join\<lparr>on_clause :=
           Some (AndNode (sample_cmp ''a'' ''='' ''b'')
                   (OtherNode ''exists'' [OtherNode ''q'' []]))\<rparr>), s')"
    unfolding 2 p
    by (simp add: extended_def l toOperationNode_eval lookup_def cloneWithOn_def
          sample_join_on_def nth_append)
  have C: "fst (orOn sample_collaborators 3 [''c'', ''~'', ''d''] sample_state) =
      Inl InvalidOperator"
    unfolding 3 p by (simp add: extended_def)
  from a A B C show ?thesis by blast
qed

section \<open>A parser that fails\<close>

text \<open>
  C5. When the parser a builder method calls fails, the method throws the parser's own
  error at that call: for a \<^verbatim>\<open>JoinBuilder\<close> method, the only collaborator call made is the
  parser's (neither \<^verbatim>\<open>cloneWithOn\<close> nor \<^verbatim>\<open>cloneWithOrOn\<close> runs, and when the parser succeeds
  its call comes before theirs); for \<^verbatim>\<open>subQuery\<close>, the calls stop at the table parser and no
  select-query node is made. No object is allocated, so no builder is returned, the
  builder keeps its node, and every later call on it returns what it would have returned
  without the failed call.
\<close>

theorem parser_failure_is_atomic:
  "(lookup s b = Some (JoinBuilder props) \<and> fragment P m = Inl e \<longrightarrow>
      (\<exists>s'. invoke_join P b m s = (Inl e, s') \<and>
         heap s' = heap s \<and>
         issued s' = issued s \<and>
         calls s' = calls s @ [parse_call m] \<and>
         toOperationNode b s' = (Inr (joinNode props), s') \<and>
         (\<forall>m'. fst (invoke P b m' s') = fst (invoke P b m' s)))) \<and>
   (lookup s b = Some (SubQueryBuilder sprops) \<and>
    parseTableExpressionOrList P (createParseContext P (adapter sprops)) tbl = Inl e \<longrightarrow>
      (\<exists>s'. subQuery P b tbl s = (Inl e, s') \<and>
         heap s' = heap s \<and>
         calls s' = calls s @ [Call_createQueryId, Call_createParseContext (adapter sprops),
                               Call_parseTableExpressionOrList] \<and>
         (\<forall>m'. fst (invoke P b m' s') = fst (invoke P b m' s)))) \<and>
   (lookup s b = Some (JoinBuilder props) \<and> fragment P m = Inr f \<longrightarrow>
      calls (snd (invoke_join P b m s)) =
        calls s @ [parse_call m, clone_call (connective_of m)])"
proof (intro conjI impI)
  assume a: "lookup s b = Some (JoinBuilder props) \<and> fragment P m = Inl e"
  let ?s' = "s\<lparr>calls := calls s @ [parse_call m]\<rparr>"
  have h: "heap ?s' = heap s" by simp
  from a have 1: "invoke_join P b m s = (Inl e, ?s')"
    by (simp add: invoke_join_eval)
  from a have 2: "toOperationNode b ?s' = (Inr (joinNode props), ?s')"
    by (simp add: toOperationNode_eval lookup_same_heap [OF h])
  have 3: "\<forall>m'. fst (invoke P b m' ?s') = fst (invoke P b m' s)"
    using invoke_result_same_heap [OF h] by blast
  from 1 2 3 show "\<exists>s'. invoke_join P b m s = (Inl e, s') \<and>
         heap s' = heap s \<and>
         issued s' = issued s \<and>
         calls s' = calls s @ [parse_call m] \<and>
         toOperationNode b s' = (Inr (joinNode props), s') \<and>
         (\<forall>m'. fst (invoke P b m' s') = fst (invoke P b m' s))"
    by (intro exI [of _ ?s']) simp
next
  assume a: "lookup s b = Some (SubQueryBuilder sprops) \<and>
    parseTableExpressionOrList P (createParseContext P (adapter sprops)) tbl = Inl e"
  let ?s' = "s\<lparr>issued := Suc (issued s),
                calls := calls s @
                   [Call_createQueryId, Call_createParseContext (adapter sprops),
                    Call_parseTableExpressionOrList]\<rparr>"
  have h: "heap ?s' = heap s" by simp
  from a have 1: "subQuery P b tbl s = (Inl e, ?s')"
    by (simp add: subQuery_eval)
  have 3: "\<forall>m'. fst (invoke P b m' ?s') = fst (invoke P b m' s)"
    using invoke_result_same_heap [OF h] by blast
  from 1 3 show "\<exists>s'. subQuery P b tbl s = (Inl e, s') \<and>
         heap s' = heap s \<and>
         calls s' = calls s @ [Call_createQueryId, Call_createParseContext (adapter sprops),
                               Call_parseTableExpressionOrList] \<and>
         (\<forall>m'. fst (invoke P b m' s') = fst (invoke P b m' s))"
    by (intro exI [of _ ?s']) simp
next
  assume "lookup s b = Some (JoinBuilder props) \<and> fragment P m = Inr f"
  then show "calls (snd (invoke_join P b m s)) =
        calls s @ [parse_call m, clone_call (connective_of m)]"
    by (simp add: invoke_join_eval)
qed

theorem parser_failure_is_atomic_witness:
  "lookup sample_state 2 = Some (JoinBuilder \<lparr>joinNode = sample_join\<rparr>) \<and>
   fragment sample_collaborators (On [''col'', ''not_an_operator'', ''x'']) =
     Inl InvalidOperator \<and>
   (\<exists>s'. on sample_collaborators 2 [''col'', ''not_an_operator'', ''x''] sample_state =
            (Inl InvalidOperator, s') \<and>
      heap s' = heap sample_state \<and>
      calls s' = calls sample_state @ [Call_parseOn] \<and>
      toOperationNode 2 s' = (Inr sample_join, s') \<and>
      fst (on sample_collaborators 2 [''col'', ''='', ''x''] s') = Inr 4) \<and>
   lookup sample_state 1 =
     Some (SubQueryBuilder \<lparr>executor = 0, adapter = DialectAdapter 7\<rparr>) \<and>
   parseTableExpressionOrList sample_collaborators
     (createParseContext sample_collaborators (DialectAdapter 7)) [] =
     Inl InvalidTableExpression \<and>
   (\<exists>s'. subQuery sample_collaborators 1 [] sample_state = (Inl InvalidTableExpression, s') \<and>
      heap s' = heap sample_state) \<and>
   fragment sample_collaborators (On [''col'', ''='', ''x'']) =
     Inr (sample_cmp ''col'' ''='' ''x'') \<and>
   calls (snd (on sample_collaborators 2 [''col'', ''='', ''x''] sample_state)) =
     [Call_parseOn, Call_cloneWithOn]"
proof -
  have a: "lookup sample_state 2 = Some (JoinBuilder \<lparr>joinNode = sample_join\<rparr>)"
    by (simp add: lookup_def sample_state_def)
  have b: "fragment sample_collaborators (On [''col'', ''not_an_operator'', ''x'']) =
     Inl InvalidOperator"
    by (simp add: sample_collaborators_def sample_comparison_def sample_operators_def)
  have c: "lookup sample_state 1 =
     Some (SubQueryBuilder \<lparr>executor = 0, adapter = DialectAdapter 7\<rparr>)"
    by (simp add: lookup_def sample_state_def)
  have d: "parseTableExpressionOrList sample_collaborators
     (createParseContext sample_collaborators
        (adapter \<lparr>executor = 0, adapter = DialectAdapter 7\<rparr>)) [] =
     Inl InvalidTableExpression"
    by (simp add: sample_collaborators_def)
  have e: "fragment sample_collaborators (On [''col'', ''='', ''x'']) =
     Inr (sample_cmp ''col'' ''='' ''x'')"
    by (simp add: sample_collaborators_def sample_comparison_def sample_operators_def)
  have e': "parseOn sample_collaborators [''col'', ''='', ''x''] =
     Inr (sample_cmp ''col'' ''='' ''x'')"
    using e by simp
  have l: "length (heap sample_state) = 4"
    by (simp add: sample_state_def)
  have g: "fst (on sample_collaborators 2 [''col'', ''='', ''x''] sample_state) = Inr 4"
    using invoke_join_result [of sample_collaborators 2 "On [''col'', ''='', ''x'']" sample_state]
    by (simp add: a e' l)
  have k: "calls sample_state = []" by (simp add: sample_state_def)
  from parser_failure_is_atomic
    [of sample_state 2 "\<lparr>joinNode = sample_join\<rparr>" sample_collaborators
        "On [''col'', ''not_an_operator'', ''x'']" InvalidOperator] a b
  have "\<exists>s'. invoke_join sample_collaborators 2 (On [''col'', ''not_an_operator'', ''x''])
                sample_state = (Inl InvalidOperator, s') \<and>
         heap s' = heap sample_state \<and>
         issued s' = issued sample_state \<and>
         calls s' = calls sample_state @ [parse_call (On [''col'', ''not_an_operator'', ''x''])] \<and>
         toOperationNode 2 s' = (Inr (joinNode \<lparr>joinNode = sample_join\<rparr>), s') \<and>
         (\<forall>m'. fst (invoke sample_collaborators 2 m' s') =
                fst (invoke sample_collaborators 2 m' sample_state))"
    by blast
  then obtain s' where
    r: "invoke_join sample_collaborators 2 (On [''col'', ''not_an_operator'', ''x''])
                sample_state = (Inl InvalidOperator, s')"
       "heap s' = heap sample_state"
       "calls s' = calls sample_state @ [parse_call (On [''col'', ''not_an_operator'', ''x''])]"
       "toOperationNode 2 s' = (Inr (joinNode \<lparr>joinNode = sample_join\<rparr>), s')"
       "\<And>m'. fst (invoke sample_collaborators 2 m' s') =
                fst (invoke sample_collaborators 2 m' sample_state)"
    by blast
  from r(1-4) have
    1: "on sample_collaborators 2 [''col'', ''not_an_operator'', ''x''] sample_state =
            (Inl InvalidOperator, s')"
       "heap s' = heap sample_state"
       "calls s' = calls sample_state @ [Call_parseOn]"
       "toOperationNode 2 s' = (Inr sample_join, s')"
    by simp_all
  from r(5) [of "JoinBuilder_method (On [''col'', ''='', ''x''])"] g
  have 2: "fst (on sample_collaborators 2 [''col'', ''='', ''x''] s') = Inr 4"
    by simp
  from parser_failure_is_atomic
    [of sample_state 1 _ sample_collaborators _ InvalidTableExpression
        "\<lparr>executor = 0, adapter = DialectAdapter 7\<rparr>" "[]"] c d
  have "\<exists>t. subQuery sample_collaborators 1 [] sample_state =
              (Inl InvalidTableExpression, t) \<and> heap t = heap sample_state"
    by blast
  then obtain t where
    3: "subQuery sample_collaborators 1 [] sample_state = (Inl InvalidTableExpression, t)"
       "heap t = heap sample_state"
    by blast
  from parser_failure_is_atomic
    [of sample_state 2 "\<lparr>joinNode = sample_join\<rparr>" sample_collaborators
        "On [''col'', ''='', ''x'']" _ _ _ "sample_cmp ''col'' ''='' ''x''"] a e
  have "calls (snd (invoke_join sample_collaborators 2 (On [''col'', ''='', ''x''])
                      sample_state)) =
        calls sample_state @ [parse_call (On [''col'', ''='', ''x'']),
                              clone_call (connective_of (On [''col'', ''='', ''x'']))]"
    by blast
  with k have 4: "calls (snd (on sample_collaborators 2 [''col'', ''='', ''x''] sample_state)) =
     [Call_parseOn, Call_cloneWithOn]"
    by simp
  from d have d': "parseTableExpressionOrList sample_collaborators
     (createParseContext sample_collaborators (DialectAdapter 7)) [] =
     Inl InvalidTableExpression"
    by simp
  from a b c d' e 1 2 3 4 show ?thesis by blast
qed

section \<open>Immutability\<close>

text \<open>
  C1. For every builder \<open>b\<close> and every public method \<open>m\<close> of \<^verbatim>\<open>JoinBuilder\<close> and
  \<^verbatim>\<open>SubQueryBuilder\<close>, the call \<^verbatim>\<open>b.m(...)\<close> leaves every object that existed before the call
  as it was, whether it returns or throws; so \<^verbatim>\<open>b.toOperationNode()\<close> returns after the call
  what it returned before. When the call returns, its result is an object that did not
  exist before, different from \<open>b\<close>, and a builder of the class the method constructs. A
  \<^verbatim>\<open>subQuery\<close> call on \<open>b\<close> after \<^verbatim>\<open>b.withSchema(...)\<close> gives the result it gives without
  that call: the same query node, adapter, identifier and executor plugins.
\<close>

theorem builders_are_immutable:
  assumes "invoke P b m s = (res, s')"
  shows "(\<forall>a ob. lookup s a = Some ob \<longrightarrow> lookup s' a = Some ob) \<and>
         toOperationNode b s' = (fst (toOperationNode b s), s') \<and>
         (\<forall>r. res = Inr r \<longrightarrow>
            lookup s r = None \<and> r \<noteq> b \<and> lookup s' b = lookup s b \<and>
            (case m of
               JoinBuilder_method jm \<Rightarrow> \<exists>p. lookup s' r = Some (JoinBuilder p)
             | SubQueryBuilder_method (SubQuery tbl) \<Rightarrow>
                 \<exists>p. lookup s' r = Some (QueryBuilder p)
             | SubQueryBuilder_method (WithSchema schema) \<Rightarrow>
                 \<exists>p. lookup s' r = Some (SubQueryBuilder p))) \<and>
         (\<forall>schema tbl. m = SubQueryBuilder_method (WithSchema schema) \<longrightarrow>
            outcome (subQuery P b tbl s') = outcome (subQuery P b tbl s))"
proof -
  from invoke_heap [OF assms] obtain obs where h: "heap s' = heap s @ obs"
    by (cases res) auto
  have old: "lookup s' a = Some ob" if "lookup s a = Some ob" for a ob
    using lookup_grown [OF h lookup_Some_less [OF that]] that by simp
  have same: "lookup s' b = lookup s b" if "b < length (heap s)"
    using lookup_grown [OF h that] .
  have top: "toOperationNode b s' = (fst (toOperationNode b s), s')"
  proof (cases "b < length (heap s)")
    case True
    from same [OF True] show ?thesis
      by (simp add: toOperationNode_eval split: option.splits obj.splits)
  next
    case False
    then have n: "lookup s b = None" by (simp add: lookup_def)
    have "res \<noteq> Inr r" for r
      using invoke_success_valid [of P b m s r s'] assms False by auto
    then obtain e where "res = Inl e" by (cases res) auto
    with invoke_heap [OF assms] have "heap s' = heap s" by simp
    with n have "lookup s' b = None" by (simp add: lookup_def split: if_splits)
    with n show ?thesis by (simp add: toOperationNode_eval)
  qed
  have new: "lookup s r = None \<and> r \<noteq> b \<and> lookup s' b = lookup s b \<and>
            (case m of
               JoinBuilder_method jm \<Rightarrow> \<exists>p. lookup s' r = Some (JoinBuilder p)
             | SubQueryBuilder_method (SubQuery tbl) \<Rightarrow>
                 \<exists>p. lookup s' r = Some (QueryBuilder p)
             | SubQueryBuilder_method (WithSchema schema) \<Rightarrow>
                 \<exists>p. lookup s' r = Some (SubQueryBuilder p))" if "res = Inr r" for r
  proof -
    from that assms have a: "invoke P b m s = (Inr r, s')" by simp
    from invoke_heap [OF a] have r: "length (heap s) \<le> r" by simp
    from invoke_success_valid [OF a] have b: "b < length (heap s)" .
    from r have "lookup s r = None" by (simp add: lookup_def)
    moreover from r b have "r \<noteq> b" by simp
    moreover note same [OF b] invoke_result_class [OF a]
    ultimately show ?thesis by blast
  qed
  have ws: "outcome (subQuery P b tbl s') = outcome (subQuery P b tbl s)"
    if "m = SubQueryBuilder_method (WithSchema schema)" for schema tbl
    using subQuery_after_withSchema [of b schema s res s' P tbl] assms that by simp
  from old top new ws show ?thesis by blast
qed

theorem builders_are_immutable_witness:
  "\<exists>s' t'.
     invoke sample_collaborators 2 (JoinBuilder_method (On [''a'', ''='', ''b''])) sample_state =
       (Inr 4, s') \<and>
     lookup sample_state 4 = None \<and>
     lookup s' 2 = Some (JoinBuilder \<lparr>joinNode = sample_join\<rparr>) \<and>
     toOperationNode 2 sample_state = (Inr sample_join, sample_state) \<and>
     toOperationNode 2 s' = (Inr sample_join, s') \<and>
     invoke sample_collaborators 1 (SubQueryBuilder_method (WithSchema ''audit''))
       sample_state = (Inr 5, t') \<and>
     outcome (subQuery sample_collaborators 1 ''person'' sample_state) =
       Inr (Some (Seen_QueryBuilder (QueryId 0) (Some []) (DialectAdapter 7)
                   (SelectQueryNode [OtherNode ''TableNode'' [OtherNode ''person'' []]]))) \<and>
     outcome (subQuery sample_collaborators 1 ''person'' t') =
       Inr (Some (Seen_QueryBuilder (QueryId 0) (Some []) (DialectAdapter 7)
                   (SelectQueryNode [OtherNode ''TableNode'' [OtherNode ''person'' []]])))"
proof -
  have l2: "lookup sample_state 2 = Some (JoinBuilder \<lparr>joinNode = sample_join\<rparr>)"
    and l1: "lookup sample_state 1 =
       Some (SubQueryBuilder \<lparr>executor = 0, adapter = DialectAdapter 7\<rparr>)"
    and l1s: "lookup sample_state (Suc 0) =
       Some (SubQueryBuilder \<lparr>executor = 0, adapter = DialectAdapter 7\<rparr>)"
    and l0: "lookup sample_state 0 = Some (NoopQueryExecutor [])"
    and l4: "lookup sample_state 4 = None"
    and len: "length (heap sample_state) = 4"
    and iss: "issued sample_state = 0"
    by (simp_all add: lookup_def sample_state_def)
  have p: "parseOn sample_collaborators [''a'', ''='', ''b''] = Inr (sample_cmp ''a'' ''='' ''b'')"
    by (simp add: sample_collaborators_def sample_comparison_def sample_operators_def)
  obtain s' where
    1: "invoke sample_collaborators 2 (JoinBuilder_method (On [''a'', ''='', ''b'']))
          sample_state = (Inr 4, s')"
    using invoke_join_eval [of sample_collaborators 2 "On [''a'', ''='', ''b'']" sample_state]
    by (simp add: l2 p len)
  obtain t' where
    2: "invoke sample_collaborators 1 (SubQueryBuilder_method (WithSchema ''audit''))
          sample_state = (Inr 5, t')"
    using withSchema_eval [of 1 "''audit''" sample_state]
    by (simp add: l1s l0 len)
  have t0: "toOperationNode 2 sample_state = (Inr sample_join, sample_state)"
    by (simp add: toOperationNode_eval l2)
  have q0: "outcome (subQuery sample_collaborators 1 ''person'' sample_state) =
       Inr (Some (Seen_QueryBuilder (QueryId 0) (Some []) (DialectAdapter 7)
                   (SelectQueryNode [OtherNode ''TableNode'' [OtherNode ''person'' []]])))"
    by (simp add: subQuery_eval l1s len iss sample_collaborators_def SelectQueryNode_create_def)
       (simp add: observe_def plugins_of_def lookup_def sample_state_def)
  from builders_are_immutable [OF 1] l2 t0
  have a: "lookup s' 2 = Some (JoinBuilder \<lparr>joinNode = sample_join\<rparr>)"
    and b: "toOperationNode 2 s' = (Inr sample_join, s')"
    by auto
  from builders_are_immutable [OF 2] q0
  have c: "outcome (subQuery sample_collaborators 1 ''person'' t') =
       Inr (Some (Seen_QueryBuilder (QueryId 0) (Some []) (DialectAdapter 7)
                   (SelectQueryNode [OtherNode ''TableNode'' [OtherNode ''person'' []]])))"
    by simp
  from 1 l4 a t0 b 2 q0 c show ?thesis by blast
qed

section \<open>subQuery\<close>

text \<open>
  C4. On a \<^verbatim>\<open>SubQueryBuilder\<close> whose table parser succeeds, \<^verbatim>\<open>subQuery(table)\<close> returns a new
  \<^verbatim>\<open>QueryBuilder\<close>: its query identifier is the one \<^verbatim>\<open>createQueryId()\<close> returns at that call,
  its executor and adapter are those of the builder's properties, and its query node is
  the select-query node made from the parsed table expression(s). With \<^verbatim>\<open>createQueryId\<close> as
  the spec describes it, whatever calls the process makes afterwards, a later \<^verbatim>\<open>subQuery\<close>
  on the same or another builder gets a different query identifier.
\<close>

theorem subQuery_constructs_fresh_query:
  assumes "lookup s b = Some (SubQueryBuilder props)"
    and "parseTableExpressionOrList P (createParseContext P (adapter props)) tbl = Inr items"
  shows "\<exists>q s1 qid.
     subQuery P b tbl s = (Inr q, s1) \<and>
     lookup s q = None \<and>
     fst (createQueryId s) = Inr qid \<and>
     lookup s1 q =
       Some (QueryBuilder
               \<lparr>executor = executor props, adapter = adapter props,
                queryId = qid, queryNode = SelectQueryNode_create items\<rparr>) \<and>
     calls s1 = calls s @
       [Call_createQueryId, Call_createParseContext (adapter props),
        Call_parseTableExpressionOrList, Call_SelectQueryNode_create] \<and>
     (\<forall>cs b2 tbl2 q2 s3.
        subQuery P b2 tbl2 (run P cs s1) = (Inr q2, s3) \<longrightarrow>
        q2 \<noteq> q \<and>
        (\<exists>p1 p2. lookup s3 q = Some (QueryBuilder p1) \<and>
                 lookup s3 q2 = Some (QueryBuilder p2) \<and>
                 queryId p1 = qid \<and>
                 queryId p2 \<noteq> queryId p1))"
proof -
  let ?q = "length (heap s)"
  let ?qid = "QueryId (issued s)"
  let ?ob = "QueryBuilder
               \<lparr>executor = executor props, adapter = adapter props,
                queryId = ?qid, queryNode = SelectQueryNode_create items\<rparr>"
  define s1 where "s1 = snd (subQuery P b tbl s)"
  from assms have
    1: "subQuery P b tbl s = (Inr ?q, s1)"
    and h1: "heap s1 = heap s @ [?ob]"
    and i1: "issued s1 = Suc (issued s)"
    and c1: "calls s1 = calls s @
       [Call_createQueryId, Call_createParseContext (adapter props),
        Call_parseTableExpressionOrList, Call_SelectQueryNode_create]"
    by (simp_all add: s1_def subQuery_eval)
  have 2: "lookup s ?q = None" by (simp add: lookup_def)
  have 3: "fst (createQueryId s) = Inr ?qid" by (simp add: createQueryId_def)
  from h1 have 4: "lookup s1 ?q = Some ?ob" by (simp add: lookup_def)
  have 5: "q2 \<noteq> ?q \<and>
        (\<exists>p1 p2. lookup s3 ?q = Some (QueryBuilder p1) \<and>
                 lookup s3 q2 = Some (QueryBuilder p2) \<and>
                 queryId p1 = ?qid \<and>
                 queryId p2 \<noteq> queryId p1)"
    if later: "subQuery P b2 tbl2 (run P cs s1) = (Inr q2, s3)" for cs b2 tbl2 q2 s3
  proof -
    let ?s2 = "run P cs s1"
    from run_grows [of P cs s1] obtain obs where
      h2: "heap ?s2 = heap s1 @ obs" and i2: "issued s1 \<le> issued ?s2"
      by blast
    from later obtain p2 where
      q2: "q2 = length (heap ?s2)"
      and h3: "heap s3 = heap ?s2 @ [QueryBuilder p2]"
      and id2: "queryId p2 = QueryId (issued ?s2)"
      by (auto simp: subQuery_eval split: option.splits obj.splits sum.splits)
    from h1 h2 q2 have ne: "q2 \<noteq> ?q" by simp
    from h1 h2 h3 have a: "lookup s3 ?q = Some ?ob"
      by (simp add: lookup_def nth_append)
    from h3 q2 have b: "lookup s3 q2 = Some (QueryBuilder p2)"
      by (simp add: lookup_def)
    from id2 i1 i2 have c: "queryId p2 \<noteq> ?qid" by simp
    from ne a b c show ?thesis by simp
  qed
  from 1 2 3 4 c1 5 show ?thesis by blast
qed

theorem subQuery_constructs_fresh_query_witness:
  "lookup sample_state 1 =
     Some (SubQueryBuilder \<lparr>executor = 0, adapter = DialectAdapter 7\<rparr>) \<and>
   parseTableExpressionOrList sample_collaborators
     (createParseContext sample_collaborators (DialectAdapter 7)) ''person'' =
     Inr [OtherNode ''TableNode'' [OtherNode ''person'' []]] \<and>
   (\<exists>q s1 q2 s3 p2.
      subQuery sample_collaborators 1 ''person'' sample_state = (Inr q, s1) \<and>
      lookup s1 q =
        Some (QueryBuilder
                \<lparr>executor = 0, adapter = DialectAdapter 7, queryId = QueryId 0,
                 queryNode = SelectQueryNode [OtherNode ''TableNode'' [OtherNode ''person'' []]]\<rparr>) \<and>
      subQuery sample_collaborators 1 ''person'' s1 = (Inr q2, s3) \<and>
      lookup s3 q2 = Some (QueryBuilder p2) \<and>
      queryId p2 \<noteq> QueryId 0)"
proof -
  let ?props = "\<lparr>executor = 0, adapter = DialectAdapter 7\<rparr>"
  let ?items = "[OtherNode ''TableNode'' [OtherNode ''person'' []]]"
  have a: "lookup sample_state 1 = Some (SubQueryBuilder ?props)"
    by (simp add: lookup_def sample_state_def)
  have b: "parseTableExpressionOrList sample_collaborators
     (createParseContext sample_collaborators (adapter ?props)) ''person'' = Inr ?items"
    by (simp add: sample_collaborators_def)
  have i: "fst (createQueryId sample_state) = Inr (QueryId 0)"
    by (simp add: createQueryId_def sample_state_def)
  from subQuery_constructs_fresh_query [OF a b] i obtain q s1 where
    1: "subQuery sample_collaborators 1 ''person'' sample_state = (Inr q, s1)"
    and 2: "lookup s1 q =
       Some (QueryBuilder
               \<lparr>executor = executor ?props, adapter = adapter ?props,
                queryId = QueryId 0, queryNode = SelectQueryNode_create ?items\<rparr>)"
    and 3: "\<And>cs b2 tbl2 q2 s3.
        subQuery sample_collaborators b2 tbl2 (run sample_collaborators cs s1) = (Inr q2, s3) \<Longrightarrow>
        \<exists>p1 p2. lookup s3 q = Some (QueryBuilder p1) \<and> lookup s3 q2 = Some (QueryBuilder p2) \<and>
                 queryId p1 = QueryId 0 \<and> queryId p2 \<noteq> queryId p1"
    by (metis Inr_inject)
  from 1 have "invoke sample_collaborators 1 (SubQueryBuilder_method (SubQuery ''person''))
                 sample_state = (Inr q, s1)"
    by simp
  from invoke_heap [OF this] obtain obs where h: "heap s1 = heap sample_state @ obs"
    by auto
  have "1 < length (heap sample_state)" by (simp add: sample_state_def)
  from lookup_grown [OF h this] a have a1: "lookup s1 1 = Some (SubQueryBuilder ?props)"
    by simp
  define s3 where "s3 = snd (subQuery sample_collaborators 1 ''person'' s1)"
  from a1 b have 4: "subQuery sample_collaborators 1 ''person'' s1 = (Inr (length (heap s1)), s3)"
    using subQuery_eval [of sample_collaborators 1 "''person''" s1]
    by (simp add: s3_def del: One_nat_def)
  from 3 [of 1 "''person''" "[]" "length (heap s1)" s3] 4 obtain p2 where
    5: "lookup s3 (length (heap s1)) = Some (QueryBuilder p2)" "queryId p2 \<noteq> QueryId 0"
    by auto
  from 2 have q1: "lookup s1 q =
        Some (QueryBuilder
                \<lparr>executor = 0, adapter = DialectAdapter 7, queryId = QueryId 0,
                 queryNode = SelectQueryNode ?items\<rparr>)"
    by (simp add: SelectQueryNode_create_def)
  from b have b': "parseTableExpressionOrList sample_collaborators
     (createParseContext sample_collaborators (DialectAdapter 7)) ''person'' = Inr ?items"
    by simp
  from a b' 1 q1 4 5 show ?thesis by blast
qed

section \<open>The parse context\<close>

text \<open>
  The sentence of C7 gives as its reason that the adapter may have changed via
  \<^verbatim>\<open>withSchema\<close>. No call of \<^verbatim>\<open>withSchema\<close> returns a builder with another adapter than that
  of the builder it was called on.
\<close>

theorem parse_context_rationale_counterexample:
  "\<not> (\<exists>s b schema d s' p p'.
         withSchema b schema s = (Inr d, s') \<and>
         lookup s b = Some (SubQueryBuilder p) \<and>
         lookup s' d = Some (SubQueryBuilder p') \<and>
         adapter p' \<noteq> adapter p)"
proof
  assume "\<exists>s b schema d s' p p'.
         withSchema b schema s = (Inr d, s') \<and>
         lookup s b = Some (SubQueryBuilder p) \<and>
         lookup s' d = Some (SubQueryBuilder p') \<and>
         adapter p' \<noteq> adapter p"
  then obtain s b schema d s' p p' where
    *: "withSchema b schema s = (Inr d, s')" "lookup s b = Some (SubQueryBuilder p)"
       "lookup s' d = Some (SubQueryBuilder p')" "adapter p' \<noteq> adapter p"
    by blast
  from withSchema_adapter [OF *(1,2)] *(3,4) show False by simp
qed

text \<open>
  C7, amended. Every \<^verbatim>\<open>subQuery\<close> call evaluates \<^verbatim>\<open>createParseContext\<close> once, at that call, on
  the adapter of the builder's properties, and hands the result to the table parser, whose
  result decides the call; the builder's properties, which hold an executor and an adapter
  and nothing else, are as before, so nothing is kept for a later call. \<^verbatim>\<open>withSchema\<close> does
  not change the adapter: the builder it returns computes the same parse context.
\<close>

theorem parse_context_per_call:
  assumes "lookup s b = Some (SubQueryBuilder props)"
  shows
    "parseContext P b s =
       (Inr (createParseContext P (adapter props)),
        s\<lparr>calls := calls s @ [Call_createParseContext (adapter props)]\<rparr>) \<and>
     (\<exists>s1.
        subQuery P b tbl s =
          (case parseTableExpressionOrList P (createParseContext P (adapter props)) tbl of
             Inl e \<Rightarrow> Inl e
           | Inr items \<Rightarrow> Inr (length (heap s)), s1) \<and>
        calls s1 = calls s @
          [Call_createQueryId, Call_createParseContext (adapter props),
           Call_parseTableExpressionOrList] @
          (case parseTableExpressionOrList P (createParseContext P (adapter props)) tbl of
             Inl e \<Rightarrow> []
           | Inr items \<Rightarrow> [Call_SelectQueryNode_create]) \<and>
        lookup s1 b = Some (SubQueryBuilder props) \<and>
        (\<forall>items.
           parseTableExpressionOrList P (createParseContext P (adapter props)) tbl = Inr items
           \<longrightarrow> (\<exists>p. lookup s1 (length (heap s)) = Some (QueryBuilder p) \<and>
                    queryNode p = SelectQueryNode_create items))) \<and>
     (\<forall>schema d s'.
        withSchema b schema s = (Inr d, s') \<longrightarrow>
        (\<exists>p'. lookup s' d = Some (SubQueryBuilder p') \<and>
              adapter p' = adapter props \<and>
              parseContext P d s' =
                (Inr (createParseContext P (adapter props)),
                 s'\<lparr>calls := calls s' @ [Call_createParseContext (adapter props)]\<rparr>)))"
proof -
  have ctx: "parseContext P x t =
       (Inr (createParseContext P (adapter p)),
        t\<lparr>calls := calls t @ [Call_createParseContext (adapter p)]\<rparr>)"
    if "lookup t x = Some (SubQueryBuilder p)" for x t p
    using that by (simp add: parseContext_def bindM_def SubQueryBuilder_props_def external_def)
  have lt: "b < length (heap s)" using assms by (rule lookup_Some_less)
  define s1 where "s1 = snd (subQuery P b tbl s)"
  let ?r = "parseTableExpressionOrList P (createParseContext P (adapter props)) tbl"
  have 1: "subQuery P b tbl s =
          (case ?r of Inl e \<Rightarrow> Inl e | Inr items \<Rightarrow> Inr (length (heap s)), s1)"
    using assms by (cases ?r) (simp_all add: s1_def subQuery_eval)
  have 2: "calls s1 = calls s @
          [Call_createQueryId, Call_createParseContext (adapter props),
           Call_parseTableExpressionOrList] @
          (case ?r of Inl e \<Rightarrow> [] | Inr items \<Rightarrow> [Call_SelectQueryNode_create])"
    using assms by (cases ?r) (simp_all add: s1_def subQuery_eval)
  have "\<exists>obs. heap s1 = heap s @ obs"
    using assms by (cases ?r) (simp_all add: s1_def subQuery_eval)
  then obtain obs where h: "heap s1 = heap s @ obs" by blast
  from lookup_grown [OF h lt] assms have 3: "lookup s1 b = Some (SubQueryBuilder props)"
    by simp
  have 4: "\<exists>p. lookup s1 (length (heap s)) = Some (QueryBuilder p) \<and>
                    queryNode p = SelectQueryNode_create items"
    if "?r = Inr items" for items
    using assms that by (simp add: s1_def subQuery_eval lookup_def)
  have 5: "\<exists>p'. lookup s' d = Some (SubQueryBuilder p') \<and>
              adapter p' = adapter props \<and>
              parseContext P d s' =
                (Inr (createParseContext P (adapter props)),
                 s'\<lparr>calls := calls s' @ [Call_createParseContext (adapter props)]\<rparr>)"
    if "withSchema b schema s = (Inr d, s')" for schema d s'
  proof -
    from withSchema_adapter [OF that assms] obtain p' where
      p': "lookup s' d = Some (SubQueryBuilder p')" "adapter p' = adapter props"
      by blast
    from ctx [OF p'(1)] p' show ?thesis by simp
  qed
  from ctx [OF assms] 1 2 3 4 5 show ?thesis by blast
qed

theorem parse_context_per_call_witness:
  "lookup sample_state 1 =
     Some (SubQueryBuilder \<lparr>executor = 0, adapter = DialectAdapter 7\<rparr>) \<and>
   fst (parseContext sample_collaborators 1 sample_state) = Inr (DialectAdapter 7) \<and>
   (\<exists>s1. subQuery sample_collaborators 1 ''person'' sample_state = (Inr 4, s1) \<and>
      calls s1 =
        [Call_createQueryId, Call_createParseContext (DialectAdapter 7),
         Call_parseTableExpressionOrList, Call_SelectQueryNode_create] \<and>
      (\<exists>p. lookup s1 4 = Some (QueryBuilder p) \<and>
           queryNode p = SelectQueryNode [OtherNode ''TableNode'' [OtherNode ''person'' []]])) \<and>
   (\<exists>d s' p'. withSchema 1 ''audit'' sample_state = (Inr d, s') \<and>
      lookup s' d = Some (SubQueryBuilder p') \<and>
      adapter p' = DialectAdapter 7 \<and>
      fst (parseContext sample_collaborators d s') = Inr (DialectAdapter 7))"
proof -
  let ?props = "\<lparr>executor = 0, adapter = DialectAdapter 7\<rparr>"
  let ?items = "[OtherNode ''TableNode'' [OtherNode ''person'' []]]"
  have a: "lookup sample_state 1 = Some (SubQueryBuilder ?props)"
    and a': "lookup sample_state (Suc 0) = Some (SubQueryBuilder ?props)"
    and l0: "lookup sample_state 0 = Some (NoopQueryExecutor [])"
    and len: "length (heap sample_state) = 4"
    and cs: "calls sample_state = []"
    by (simp_all add: lookup_def sample_state_def)
  have b: "parseTableExpressionOrList sample_collaborators
     (createParseContext sample_collaborators (adapter ?props)) ''person'' = Inr ?items"
    and c: "createParseContext sample_collaborators (adapter ?props) = DialectAdapter 7"
    by (simp_all add: sample_collaborators_def)
  note th = parse_context_per_call [OF a, of sample_collaborators "''person''"]
  from th c have 1: "fst (parseContext sample_collaborators 1 sample_state) =
      Inr (DialectAdapter 7)"
    by simp
  from th obtain s1 where
    s1: "subQuery sample_collaborators 1 ''person'' sample_state =
          (case parseTableExpressionOrList sample_collaborators
                  (createParseContext sample_collaborators (adapter ?props)) ''person'' of
             Inl e \<Rightarrow> Inl e
           | Inr items \<Rightarrow> Inr (length (heap sample_state)), s1)"
        "calls s1 = calls sample_state @
          [Call_createQueryId, Call_createParseContext (adapter ?props),
           Call_parseTableExpressionOrList] @
          (case parseTableExpressionOrList sample_collaborators
                  (createParseContext sample_collaborators (adapter ?props)) ''person'' of
             Inl e \<Rightarrow> []
           | Inr items \<Rightarrow> [Call_SelectQueryNode_create])"
        "\<And>items. parseTableExpressionOrList sample_collaborators
                  (createParseContext sample_collaborators (adapter ?props)) ''person'' =
                Inr items \<Longrightarrow>
           \<exists>p. lookup s1 (length (heap sample_state)) = Some (QueryBuilder p) \<and>
                    queryNode p = SelectQueryNode_create items"
    by blast
  from s1(1) have 2: "subQuery sample_collaborators 1 ''person'' sample_state = (Inr 4, s1)"
    unfolding b len by simp
  from s1(2) have 3: "calls s1 =
        [Call_createQueryId, Call_createParseContext (DialectAdapter 7),
         Call_parseTableExpressionOrList, Call_SelectQueryNode_create]"
    unfolding b cs by simp
  from s1(3) [OF b] have 4: "\<exists>p. lookup s1 4 = Some (QueryBuilder p) \<and>
           queryNode p = SelectQueryNode ?items"
    unfolding len by (simp add: SelectQueryNode_create_def)
  define s' where "s' = snd (withSchema 1 ''audit'' sample_state)"
  have w: "withSchema 1 ''audit'' sample_state = (Inr 5, s')"
    using withSchema_eval [of 1 "''audit''" sample_state]
    by (simp add: s'_def a' l0 len)
  from th w obtain p' where
    5: "lookup s' 5 = Some (SubQueryBuilder p')" "adapter p' = adapter ?props"
       "parseContext sample_collaborators 5 s' =
          (Inr (createParseContext sample_collaborators (adapter ?props)),
           s'\<lparr>calls := calls s' @ [Call_createParseContext (adapter ?props)]\<rparr>)"
    by blast
  from 5 c have 6: "adapter p' = DialectAdapter 7"
    "fst (parseContext sample_collaborators 5 s') = Inr (DialectAdapter 7)"
    by simp_all
  from a 1 2 3 4 w 5(1) 6 show ?thesis by blast
qed

section \<open>Two runs of a call\<close>




end
